theory Spec2Isabelle
  imports Main "HOL-Library.Word"
begin

section \<open>The data mask of dplyr (inst/include/dplyr/DataMask.h)\<close>

text \<open>
  The header defines the binding layer of the data mask: the general
  \<^verbatim>\<open>DataMask_bindings<Data>\<close> (grouped and rowwise data), its specialisation for
  \<^verbatim>\<open>NaturalDataFrame\<close>, the callback classes through which an active binding asks
  for the subset of a column, and \<^verbatim>\<open>DataMask<Data>::eval\<close>.

  The C++ objects live in one mutable world that is passed explicitly: the host's
  environments (a store from addresses to frames), the \<^verbatim>\<open>LazySplitSubsets\<close> object
  the mask refers to, a store of the \<^verbatim>\<open>GroupedHybridEval\<close> objects behind shared
  pointers together with the fact whether each still exists, a store of the
  \<^verbatim>\<open>HybridCallbackWeakProxy\<close> objects behind external pointers, and the warnings
  emitted so far. A C++ exception and a dereference of a null pointer are values of the
  type \<open>error\<close>.
\<close>

subsection \<open>Host values\<close>

type_synonym SymbolString = string

text \<open>
  A C++ \<^verbatim>\<open>int\<close>, which is also the element type of an R integer vector:
  32 bits, read as a signed number by \<open>sint\<close>.
\<close>

type_synonym cint = "32 word"

text \<open>
  \<^verbatim>\<open>SEXP\<close>: the null value, an integer vector (a scalar is a vector of length one), an
  environment given by its address, an external pointer (\<^verbatim>\<open>XPtr\<close>) given by the
  address of the proxy it owns, a data pronoun over an environment, and an unevaluated
  expression, which the mask never inspects.
\<close>

datatype sexp =
    R_NilValue
  | INTSXP "cint list"
  | ENVSXP nat
  | EXTPTRSXP nat
  | PRONOUN nat
  | LANGSXP string

text \<open>
  A pointer to a C++ function that an active binding calls with the name and a payload.
  \<^verbatim>\<open>hybrid_get_callback\<close> is the one function of this header; a function of other
  code is known by its address only.
\<close>

datatype getter = Hybrid_get_callback | Foreign_getter nat

text \<open>
  A binding of a frame is a plain value or an active binding. An active binding holds
  the function and the payload (a list of values) that were supplied when it was made.
\<close>

datatype binding = Plain sexp | Active getter "sexp list"

record environment =
  enclos :: "nat option"
  frame :: "SymbolString \<rightharpoonup> binding"

datatype error =
    NullIndexDereference
  | UndeclaredVariable SymbolString
  | RowOutOfRange
  | UnboundVariable SymbolString
  | LookupDepthExceeded
  | InvalidPayload
  | ForeignCallback nat
  | EvaluationEngineFailure string

subsection \<open>Slicing indices\<close>

text \<open>
  Modelled from the spec: the declaration of \<^verbatim>\<open>Data::slicing_index\<close> is not part of
  the header. A slicing index identifies one group: a group ordinal and the ordered list
  of the row positions that belong to it. \<^verbatim>\<open>size()\<close> and \<^verbatim>\<open>group()\<close> return
  \<^verbatim>\<open>int\<close>.
\<close>

record slicing_index =
  index_group :: cint
  index_rows :: "nat list"

definition Index_size :: "slicing_index \<Rightarrow> cint" where
  "Index_size idx = of_nat (length (index_rows idx))"

definition Index_group :: "slicing_index \<Rightarrow> cint" where
  "Index_group idx = index_group idx"

subsection \<open>The world\<close>

text \<open>
  Modelled from the spec: \<^verbatim>\<open>dplyr/data/LazySplitSubsets.h\<close> is not part of the
  source at hand. The subset cache owns the declared variables with the data of their
  whole columns, in order, and maps a variable name to the subset most recently
  materialised for the current group. Columns are integer vectors here.
\<close>

record LazySplitSubsets =
  subset_data :: "(SymbolString \<times> cint list) list"
  resolved :: "SymbolString \<rightharpoonup> sexp"

text \<open>
  The fields of \<^verbatim>\<open>GroupedHybridEval\<close>: \<^verbatim>\<open>const Index* indices\<close> (\<open>None\<close> is the
  null pointer; the pointee is const, so the pointer is modelled by the index it points
  to) and \<^verbatim>\<open>SEXP mask_env\<close>. Its reference \<^verbatim>\<open>subsets\<close> is the subset cache of the
  world.
\<close>

record GroupedHybridEval =
  indices :: "slicing_index option"
  mask_env :: sexp

text \<open>
  The field of \<^verbatim>\<open>HybridCallbackWeakProxy\<close>: \<^verbatim>\<open>weak_ptr<IHybridCallback> real\<close>, the
  address of the \<^verbatim>\<open>GroupedHybridEval\<close> it was constructed from.
\<close>

record HybridCallbackWeakProxy =
  real :: nat

text \<open>
  A \<^verbatim>\<open>GroupedHybridEval\<close> lives at an address: \<open>resolvers\<close> holds its fields and
  \<open>resolver_alive\<close> tells whether the object exists, which is what locking a weak
  pointer to it finds out. An address is never used twice. The proxies are owned by the
  host and stay.
\<close>

record world =
  envs :: "nat \<Rightarrow> environment"
  next_env :: nat
  subsets :: LazySplitSubsets
  resolvers :: "nat \<Rightarrow> GroupedHybridEval"
  resolver_alive :: "nat \<Rightarrow> bool"
  next_resolver :: nat
  proxies :: "nat \<rightharpoonup> HybridCallbackWeakProxy"
  next_proxy :: nat
  warnings :: "string list"

subsection \<open>Host primitives\<close>

text \<open>
  Modelled from the spec: the host's binding primitives are outside the header. The
  spec requires three of them: create a child scope of a given parent; create a scope
  where a fixed set of names are each resolved lazily through a supplied callback (the
  code supplies a function and a payload); define a plain binding for a name in a given
  scope. A new environment takes the next free address.
\<close>

definition new_child :: "nat option \<Rightarrow> world \<Rightarrow> nat \<times> world" where
  "new_child parent w =
     (next_env w,
      w\<lparr>envs := (envs w)(next_env w := \<lparr>enclos = parent, frame = Map.empty\<rparr>),
        next_env := Suc (next_env w)\<rparr>)"

definition create_env_string_wrapped ::
    "SymbolString list \<Rightarrow> getter \<Rightarrow> sexp list \<Rightarrow> nat option \<Rightarrow> world \<Rightarrow> nat \<times> world"
    where
  "create_env_string_wrapped names fn payload parent w =
     (next_env w,
      w\<lparr>envs := (envs w)(next_env w :=
            \<lparr>enclos = parent,
             frame = (\<lambda>x. if x \<in> set names then Some (Active fn payload) else None)\<rparr>),
        next_env := Suc (next_env w)\<rparr>)"

definition Rf_defineVar :: "SymbolString \<Rightarrow> sexp \<Rightarrow> nat \<Rightarrow> world \<Rightarrow> world" where
  "Rf_defineVar x v e w =
     w\<lparr>envs := (envs w)(e := (envs w e)\<lparr>frame := (frame (envs w e))(x \<mapsto> Plain v)\<rparr>)\<rparr>"

text \<open>\<^verbatim>\<open>warning(msg)\<close> records a diagnostic and returns to its caller.\<close>

definition warning :: "string \<Rightarrow> world \<Rightarrow> world" where
  "warning msg w = w\<lparr>warnings := warnings w @ [msg]\<rparr>"

subsection \<open>The subset cache\<close>

text \<open>
  Modelled from the spec: gathering the rows of a column at the positions of an index.
  A position outside the column is an error.
\<close>

definition gather :: "cint list \<Rightarrow> nat list \<Rightarrow> cint list option" where
  "gather col ps =
     (if list_all (\<lambda>p. p < length col) ps then Some (map (\<lambda>p. col ! p) ps) else None)"

definition get_variable_names :: "LazySplitSubsets \<Rightarrow> SymbolString list" where
  "get_variable_names s = map fst (subset_data s)"

text \<open>
  Modelled from the spec: \<^verbatim>\<open>get(name, index, scope)\<close>. It fails for a name that is
  not a declared variable; it returns the cached subset when there is one; otherwise it
  materialises the subset for the index, caches it and installs it as a plain binding
  in the given scope.
\<close>

definition install :: "sexp \<Rightarrow> SymbolString \<Rightarrow> sexp \<Rightarrow> world \<Rightarrow> world" where
  "install scope x v w = (case scope of ENVSXP e \<Rightarrow> Rf_defineVar x v e w | _ \<Rightarrow> w)"

definition LazySplitSubsets_get ::
    "SymbolString \<Rightarrow> slicing_index \<Rightarrow> sexp \<Rightarrow> world \<Rightarrow> (error + sexp) \<times> world" where
  "LazySplitSubsets_get x idx scope w =
     (case map_of (subset_data (subsets w)) x of
        None \<Rightarrow> (Inl (UndeclaredVariable x), w)
      | Some col \<Rightarrow>
          (case resolved (subsets w) x of
             Some v \<Rightarrow> (Inr v, w)
           | None \<Rightarrow>
               (case gather col (index_rows idx) of
                  None \<Rightarrow> (Inl RowOutOfRange, w)
                | Some rs \<Rightarrow>
                    (Inr (INTSXP rs),
                     install scope x (INTSXP rs)
                       (w\<lparr>subsets := (subsets w)\<lparr>resolved :=
                            (resolved (subsets w))(x \<mapsto> INTSXP rs)\<rparr>\<rparr>)))))"

text \<open>Modelled from the spec: \<^verbatim>\<open>clear()\<close> drops all cached entries.\<close>

definition LazySplitSubsets_clear :: "world \<Rightarrow> world" where
  "LazySplitSubsets_clear w = w\<lparr>subsets := (subsets w)\<lparr>resolved := Map.empty\<rparr>\<rparr>"

text \<open>
  Modelled from the spec: \<^verbatim>\<open>update(indices, scope)\<close> of the subset cache, which the
  spec describes as clearing the cache on an index change, and as invalidating the
  bindings of the scope that cache a materialised subset: the plain bindings of the
  cached names leave the scope and every cached entry is dropped.
\<close>

definition invalidate :: "sexp \<Rightarrow> world \<Rightarrow> world" where
  "invalidate scope w =
     (case scope of
        ENVSXP e \<Rightarrow>
          w\<lparr>envs := (envs w)(e := (envs w e)\<lparr>frame :=
               (\<lambda>x. if resolved (subsets w) x = None then frame (envs w e) x else None)\<rparr>)\<rparr>
      | _ \<Rightarrow> w)"

definition LazySplitSubsets_update :: "slicing_index \<Rightarrow> sexp \<Rightarrow> world \<Rightarrow> world" where
  "LazySplitSubsets_update idx scope w = LazySplitSubsets_clear (invalidate scope w)"

subsection \<open>GroupedHybridEval and the two proxies\<close>

text \<open>
  \<^verbatim>\<open>new GroupedHybridEval(subsets)\<close>, held by a shared pointer: the constructor sets
  \<^verbatim>\<open>indices(NULL)\<close> and \<^verbatim>\<open>mask_env(R_NilValue)\<close>; the object takes the next free
  address and exists from now on.
\<close>

definition GroupedHybridEval_new :: "world \<Rightarrow> nat \<times> world" where
  "GroupedHybridEval_new w =
     (next_resolver w,
      w\<lparr>resolvers := (resolvers w)(next_resolver w :=
            \<lparr>indices = None, mask_env = R_NilValue\<rparr>),
        resolver_alive := (resolver_alive w)(next_resolver w := True),
        next_resolver := Suc (next_resolver w)\<rparr>)"

text \<open>\<^verbatim>\<open>return *indices;\<close>\<close>

definition get_indices :: "GroupedHybridEval \<Rightarrow> error + slicing_index" where
  "get_indices g = (case indices g of None \<Rightarrow> Inl NullIndexDereference | Some idx \<Rightarrow> Inr idx)"

text \<open>
  \<^verbatim>\<open>return subsets.get(name, get_indices(), mask_env);\<close> for the object at the
  address \<open>r\<close>.
\<close>

definition GroupedHybridEval_get_subset ::
    "nat \<Rightarrow> SymbolString \<Rightarrow> world \<Rightarrow> (error + sexp) \<times> world" where
  "GroupedHybridEval_get_subset r x w =
     (case get_indices (resolvers w r) of
        Inl e \<Rightarrow> (Inl e, w)
      | Inr idx \<Rightarrow> LazySplitSubsets_get x idx (mask_env (resolvers w r)) w)"

text \<open>\<^verbatim>\<open>indices = &indices_;\<close>\<close>

definition set_indices :: "nat \<Rightarrow> slicing_index \<Rightarrow> world \<Rightarrow> world" where
  "set_indices r idx w =
     w\<lparr>resolvers := (resolvers w)(r := (resolvers w r)\<lparr>indices := Some idx\<rparr>)\<rparr>"

text \<open>\<^verbatim>\<open>mask_env = env;\<close>\<close>

definition set_env :: "nat \<Rightarrow> sexp \<Rightarrow> world \<Rightarrow> world" where
  "set_env r env w =
     w\<lparr>resolvers := (resolvers w)(r := (resolvers w r)\<lparr>mask_env := env\<rparr>)\<rparr>"

text \<open>
  \<^verbatim>\<open>HybridCallbackProxy::get_subset\<close>: the proxy is owned by the
  \<^verbatim>\<open>GroupedHybridEval\<close> at \<open>r\<close> and forwards to it through a plain pointer.
\<close>

definition HybridCallbackProxy_get_subset ::
    "nat \<Rightarrow> SymbolString \<Rightarrow> world \<Rightarrow> (error + sexp) \<times> world" where
  "HybridCallbackProxy_get_subset r x w = GroupedHybridEval_get_subset r x w"

text \<open>
  \<^verbatim>\<open>new HybridCallbackWeakProxy(real_)\<close>, owned by an external pointer: the proxy
  keeps a weak pointer to the object at \<open>r\<close> and takes the next free address.
\<close>

definition HybridCallbackWeakProxy_new :: "nat \<Rightarrow> world \<Rightarrow> nat \<times> world" where
  "HybridCallbackWeakProxy_new r w =
     (next_proxy w,
      w\<lparr>proxies := (proxies w)(next_proxy w \<mapsto> \<lparr>real = r\<rparr>),
        next_proxy := Suc (next_proxy w)\<rparr>)"

text \<open>
  \<^verbatim>\<open>HybridCallbackWeakProxy::get_subset\<close>: \<^verbatim>\<open>real.lock()\<close> succeeds as long as the
  object the weak pointer was made from exists.
\<close>

definition HybridCallbackWeakProxy_get_subset ::
    "HybridCallbackWeakProxy \<Rightarrow> SymbolString \<Rightarrow> world \<Rightarrow> (error + sexp) \<times> world" where
  "HybridCallbackWeakProxy_get_subset px x w =
     (if resolver_alive w (real px) then GroupedHybridEval_get_subset (real px) x w
      else (Inr R_NilValue, warning ''Hybrid callback proxy out of scope'' w))"

text \<open>
  \<^verbatim>\<open>hybrid_get_callback(name, payload)\<close>: the first element of the payload is
  converted to an external pointer to a weak proxy, whose \<^verbatim>\<open>get_subset\<close> is called.
  A payload without such a first element makes the conversion fail.
\<close>

definition hybrid_get_callback ::
    "SymbolString \<Rightarrow> sexp list \<Rightarrow> world \<Rightarrow> (error + sexp) \<times> world" where
  "hybrid_get_callback x payload w =
     (case payload of
        EXTPTRSXP p # _ \<Rightarrow>
          (case proxies w p of
             Some px \<Rightarrow> HybridCallbackWeakProxy_get_subset px x w
           | None \<Rightarrow> (Inl InvalidPayload, w))
      | _ \<Rightarrow> (Inl InvalidPayload, w))"

text \<open>
  Calling the function of an active binding. A function of other code is not
  interpreted: the call is an error of its own.
\<close>

fun call_getter ::
    "getter \<Rightarrow> SymbolString \<Rightarrow> sexp list \<Rightarrow> world \<Rightarrow> (error + sexp) \<times> world" where
  "call_getter Hybrid_get_callback x payload w = hybrid_get_callback x payload w"
| "call_getter (Foreign_getter a) x payload w = (Inl (ForeignCallback a), w)"

subsection \<open>The general binding layer\<close>

text \<open>
  The members \<^verbatim>\<open>mask_active\<close>, \<^verbatim>\<open>mask_resolved\<close> and the shared pointer
  \<^verbatim>\<open>callback\<close>; the reference \<^verbatim>\<open>subsets\<close> is the subset cache of the world.
\<close>

record DataMask_bindings =
  mask_active :: nat
  mask_resolved :: nat
  callback :: nat

text \<open>
  The constructor, statement by statement: the member \<^verbatim>\<open>callback\<close>, the names, the
  weak proxy \<^verbatim>\<open>p\<close> made from \<^verbatim>\<open>callback\<close>, the payload
  \<^verbatim>\<open>List::create(p)\<close>, the active scope made with \<^verbatim>\<open>&hybrid_get_callback\<close> and
  the payload, the resolved scope, \<^verbatim>\<open>subsets.clear()\<close> and
  \<^verbatim>\<open>callback->set_env(mask_resolved)\<close>.
\<close>

definition DataMask_bindings_new :: "nat \<Rightarrow> world \<Rightarrow> DataMask_bindings \<times> world" where
  "DataMask_bindings_new parent_env w =
     (let (r, w1) = GroupedHybridEval_new w;
          names = get_variable_names (subsets w1);
          (p, w2) = HybridCallbackWeakProxy_new r w1;
          payload = [EXTPTRSXP p];
          (active, w3) =
            create_env_string_wrapped names Hybrid_get_callback payload (Some parent_env) w2;
          (res, w4) = new_child (Some active) w3;
          w5 = LazySplitSubsets_clear w4;
          w6 = set_env r (ENVSXP res) w5
      in (\<lparr>mask_active = active, mask_resolved = res, callback = r\<rparr>, w6))"

text \<open>
  The destructor runs \<^verbatim>\<open>subsets.clear()\<close>; then the members go, and with the shared
  pointer \<^verbatim>\<open>callback\<close> the \<^verbatim>\<open>GroupedHybridEval\<close> it owns.
\<close>

definition DataMask_bindings_delete :: "DataMask_bindings \<Rightarrow> world \<Rightarrow> world" where
  "DataMask_bindings_delete b w =
     (LazySplitSubsets_clear w)
       \<lparr>resolver_alive := (resolver_alive w)(callback b := False)\<rparr>"

definition bottom :: "DataMask_bindings \<Rightarrow> sexp" where
  "bottom b = ENVSXP (mask_resolved b)"

definition top_env :: "DataMask_bindings \<Rightarrow> sexp" where
  "top_env b = ENVSXP (mask_active b)"

text \<open>
  \<^verbatim>\<open>update\<close> has two statements,
  \<^verbatim>\<open>subsets.update(indices, mask_resolved); callback->set_indices(indices);\<close>.
  The worlds after the first and after the second statement are kept in this order; the
  world \<^verbatim>\<open>update\<close> leaves is the last of them.
\<close>

definition DataMask_bindings_update_states ::
    "DataMask_bindings \<Rightarrow> slicing_index \<Rightarrow> world \<Rightarrow> world list" where
  "DataMask_bindings_update_states b idx w =
     (let w1 = LazySplitSubsets_update idx (ENVSXP (mask_resolved b)) w;
          w2 = set_indices (callback b) idx w1
      in [w1, w2])"

definition DataMask_bindings_update ::
    "DataMask_bindings \<Rightarrow> slicing_index \<Rightarrow> world \<Rightarrow> world" where
  "DataMask_bindings_update b idx w = last (DataMask_bindings_update_states b idx w)"

text \<open>
  The subset of the column named \<open>x\<close> for the group of an index, computed from the
  data of the column alone: what a resolution yields when nothing cached is involved.
\<close>

definition subset_for ::
    "(SymbolString \<times> cint list) list \<Rightarrow> slicing_index \<Rightarrow> SymbolString \<Rightarrow> error + sexp" where
  "subset_for columns idx x =
     (case map_of columns x of
        None \<Rightarrow> Inl (UndeclaredVariable x)
      | Some col \<Rightarrow>
          (case gather col (index_rows idx) of
             None \<Rightarrow> Inl RowOutOfRange
           | Some rs \<Rightarrow> Inr (INTSXP rs)))"

subsection \<open>The binding layer of a NaturalDataFrame\<close>

record DataMask_bindings_Natural =
  mask_bindings :: nat

text \<open>
  The loop of the constructor, from \<open>i\<close> up to \<open>n\<close>:
  \<^verbatim>\<open>Rf_defineVar(Rf_install(names[i]), subsets.get_subset_data(i).get_data(), mask_bindings)\<close>.
  The loop runs below the number of declared variables, so both reads are in range.
\<close>

function define_columns :: "nat \<Rightarrow> nat \<Rightarrow> nat \<Rightarrow> world \<Rightarrow> world" where
  "define_columns i n e w =
     (if i < n
      then define_columns (Suc i) n e
             (Rf_defineVar (get_variable_names (subsets w) ! i)
                (INTSXP (snd (subset_data (subsets w) ! i))) e w)
      else w)"
  by pat_completeness auto
termination
  by (relation "measure (\<lambda>(i, n, e, w). n - i)") auto

declare define_columns.simps [simp del]

definition DataMask_bindings_Natural_new ::
    "nat \<Rightarrow> world \<Rightarrow> DataMask_bindings_Natural \<times> world" where
  "DataMask_bindings_Natural_new parent_env w =
     (let (e, w1) = new_child (Some parent_env) w;
          names = get_variable_names (subsets w1);
          n = length names
      in (\<lparr>mask_bindings = e\<rparr>, define_columns 0 n e w1))"

definition DataMask_bindings_Natural_update ::
    "DataMask_bindings_Natural \<Rightarrow> slicing_index \<Rightarrow> world \<Rightarrow> world" where
  "DataMask_bindings_Natural_update b idx w = w"

definition bottom_Natural :: "DataMask_bindings_Natural \<Rightarrow> sexp" where
  "bottom_Natural b = ENVSXP (mask_bindings b)"

definition top_Natural :: "DataMask_bindings_Natural \<Rightarrow> sexp" where
  "top_Natural b = ENVSXP (mask_bindings b)"

subsection \<open>The data mask\<close>

text \<open>
  Modelled from the spec: \<^verbatim>\<open>new_data_mask\<close> and \<^verbatim>\<open>as_data_pronoun\<close> belong to the
  host. The evaluation scope is layered on top of \<^verbatim>\<open>bottom()\<close> and \<^verbatim>\<open>top()\<close>: a new
  scope whose parent is the bottom scope. The data pronoun is backed by the top scope.
\<close>

definition new_data_mask :: "sexp \<Rightarrow> sexp \<Rightarrow> nat \<Rightarrow> world \<Rightarrow> nat \<times> world" where
  "new_data_mask bottom_scope top_scope env w =
     new_child (case bottom_scope of ENVSXP e \<Rightarrow> Some e | _ \<Rightarrow> None) w"

definition as_data_pronoun :: "sexp \<Rightarrow> sexp" where
  "as_data_pronoun tp = (case tp of ENVSXP e \<Rightarrow> PRONOUN e | _ \<Rightarrow> R_NilValue)"

text \<open>
  The external evaluation engine \<^verbatim>\<open>Rcpp_eval(expr, env)\<close> is a parameter: any
  function from an expression, a scope and the world to a value or an error, and a
  new world.
\<close>

type_synonym evaluator = "sexp \<Rightarrow> sexp \<Rightarrow> world \<Rightarrow> (error + sexp) \<times> world"

record DataMask =
  bindings :: DataMask_bindings
  overscope :: nat

definition DataMask_new :: "nat \<Rightarrow> world \<Rightarrow> DataMask \<times> world" where
  "DataMask_new env w =
     (let (b, w1) = DataMask_bindings_new env w;
          (ov, w2) = new_data_mask (bottom b) (top_env b) env w1;
          w3 = Rf_defineVar ''.data'' (as_data_pronoun (top_env b)) ov w2
      in (\<lparr>bindings = b, overscope = ov\<rparr>, w3))"

definition DataMask_eval ::
    "evaluator \<Rightarrow> DataMask \<Rightarrow> sexp \<Rightarrow> slicing_index \<Rightarrow> world \<Rightarrow> (error + sexp) \<times> world" where
  "DataMask_eval Rcpp_eval m expr idx w =
     (let w1 = DataMask_bindings_update (bindings m) idx w;
          w2 = Rf_defineVar ''..group_size'' (INTSXP [Index_size idx]) (overscope m) w1;
          w3 = Rf_defineVar ''..group_number'' (INTSXP [Index_group idx + 1]) (overscope m) w2
      in Rcpp_eval expr (ENVSXP (overscope m)) w3)"

record DataMask_Natural =
  bindings_Natural :: DataMask_bindings_Natural
  overscope_Natural :: nat

definition DataMask_Natural_new :: "nat \<Rightarrow> world \<Rightarrow> DataMask_Natural \<times> world" where
  "DataMask_Natural_new env w =
     (let (b, w1) = DataMask_bindings_Natural_new env w;
          (ov, w2) = new_data_mask (bottom_Natural b) (top_Natural b) env w1;
          w3 = Rf_defineVar ''.data'' (as_data_pronoun (top_Natural b)) ov w2
      in (\<lparr>bindings_Natural = b, overscope_Natural = ov\<rparr>, w3))"

definition DataMask_Natural_eval ::
    "evaluator \<Rightarrow> DataMask_Natural \<Rightarrow> sexp \<Rightarrow> slicing_index \<Rightarrow> world
       \<Rightarrow> (error + sexp) \<times> world" where
  "DataMask_Natural_eval Rcpp_eval m expr idx w =
     (let w1 = DataMask_bindings_Natural_update (bindings_Natural m) idx w;
          w2 = Rf_defineVar ''..group_size'' (INTSXP [Index_size idx])
                 (overscope_Natural m) w1;
          w3 = Rf_defineVar ''..group_number'' (INTSXP [Index_group idx + 1])
                 (overscope_Natural m) w2
      in Rcpp_eval expr (ENVSXP (overscope_Natural m)) w3)"

subsection \<open>Reading a variable\<close>

text \<open>
  Modelled from the spec: the host's lookup walks the chain of scopes from the inner
  one outwards; a plain binding yields its value and an active binding calls its own
  function with the name and its own payload. The first argument bounds the number of
  scopes visited.
\<close>

fun findVar :: "nat \<Rightarrow> SymbolString \<Rightarrow> nat \<Rightarrow> world \<Rightarrow> (error + sexp) \<times> world" where
  "findVar 0 x e w = (Inl LookupDepthExceeded, w)"
| "findVar (Suc k) x e w =
     (case frame (envs w e) x of
        Some (Plain v) \<Rightarrow> (Inr v, w)
      | Some (Active fn payload) \<Rightarrow> call_getter fn x payload w
      | None \<Rightarrow>
          (case enclos (envs w e) of
             None \<Rightarrow> (Inl (UnboundVariable x), w)
           | Some p \<Rightarrow> findVar k x p w))"

subsection \<open>A small session for the examples\<close>

text \<open>
  Two columns of eight rows, a world in which no mask exists yet, the group with the
  row positions 2, 5 and 7, and a second group.
\<close>

definition example_subsets :: LazySplitSubsets where
  "example_subsets =
     \<lparr>subset_data = [(''x'', [10, 11, 12, 13, 14, 15, 16, 17]),
                     (''y'', [20, 21, 22, 23, 24, 25, 26, 27])],
      resolved = Map.empty\<rparr>"

definition example_world :: world where
  "example_world =
     \<lparr>envs = (\<lambda>a. \<lparr>enclos = None, frame = Map.empty\<rparr>),
      next_env = 1,
      subsets = example_subsets,
      resolvers = (\<lambda>a. \<lparr>indices = None, mask_env = R_NilValue\<rparr>),
      resolver_alive = (\<lambda>a. False),
      next_resolver = 0,
      proxies = Map.empty,
      next_proxy = 0,
      warnings = []\<rparr>"

definition example_index :: slicing_index where
  "example_index = \<lparr>index_group = 4, index_rows = [2, 5, 7]\<rparr>"

definition other_index :: slicing_index where
  "other_index = \<lparr>index_group = 0, index_rows = [0, 1]\<rparr>"

text \<open>A general binding layer and a data mask built in that world.\<close>

definition example_bindings :: DataMask_bindings where
  "example_bindings = fst (DataMask_bindings_new 0 example_world)"

definition example_bound :: world where
  "example_bound = snd (DataMask_bindings_new 0 example_world)"

definition example_started :: world where
  "example_started = DataMask_bindings_update example_bindings example_index example_bound"

text \<open>
  The world after the column \<^verbatim>\<open>x\<close> has been read through the resolved scope for
  the first group: its subset is cached.
\<close>

definition example_cached :: world where
  "example_cached = snd (findVar (Suc (Suc 0)) ''x'' 2 example_started)"

definition example_mask :: DataMask where
  "example_mask = fst (DataMask_new 0 example_world)"

definition example_session :: world where
  "example_session = snd (DataMask_new 0 example_world)"

definition example_Natural_mask :: DataMask_Natural where
  "example_Natural_mask = fst (DataMask_Natural_new 0 example_world)"

definition example_Natural_session :: world where
  "example_Natural_session = snd (DataMask_Natural_new 0 example_world)"

text \<open>
  An evaluation engine for the examples: \<^verbatim>\<open>stop()\<close> fails, \<^verbatim>\<open>helper <- 1\<close> defines
  a variable in the scope it is given, and any other expression is a name, read through
  the chain of scopes.
\<close>

definition example_Rcpp_eval :: evaluator where
  "example_Rcpp_eval expr env w =
     (case (expr, env) of
        (LANGSXP x, ENVSXP e) \<Rightarrow>
          (if x = ''stop()'' then (Inl (EvaluationEngineFailure ''stop''), w)
           else if x = ''helper <- 1''
             then (Inr (INTSXP [1]), Rf_defineVar ''helper'' (INTSXP [1]) e w)
           else findVar 4 x e w)
      | _ \<Rightarrow> (Inr expr, w))"

section \<open>Properties\<close>

subsection \<open>Auxiliary facts\<close>

lemmas callback_defs =
  HybridCallbackWeakProxy_get_subset_def hybrid_get_callback_def
  HybridCallbackProxy_get_subset_def GroupedHybridEval_get_subset_def get_indices_def
  set_indices_def set_env_def GroupedHybridEval_new_def HybridCallbackWeakProxy_new_def
  warning_def

lemmas subsets_defs =
  LazySplitSubsets_get_def LazySplitSubsets_clear_def LazySplitSubsets_update_def
  invalidate_def install_def gather_def get_variable_names_def

lemmas host_defs =
  new_child_def create_env_string_wrapped_def Rf_defineVar_def new_data_mask_def
  as_data_pronoun_def

lemmas bindings_defs =
  DataMask_bindings_new_def DataMask_bindings_delete_def DataMask_bindings_update_def
  DataMask_bindings_update_states_def bottom_def top_env_def

lemmas example_defs =
  example_subsets_def example_world_def example_index_def other_index_def
  example_bindings_def example_bound_def example_started_def example_mask_def
  example_session_def example_Natural_mask_def example_Natural_session_def
  example_Rcpp_eval_def DataMask_new_def DataMask_Natural_new_def
  DataMask_bindings_Natural_new_def bottom_Natural_def top_Natural_def
  Index_size_def Index_group_def

lemma sint_of_nat_small: "n < 2 ^ 31 \<Longrightarrow> sint (of_nat n :: 32 word) = int n"
  by (simp add: signed_of_nat signed_take_bit_int_eq_self)

lemma sint_succ_small:
  assumes "sint (g :: 32 word) < 2 ^ 31 - 1"
  shows "sint (g + 1) = sint g + 1"
proof -
  have "- (2 ^ 31) \<le> sint g"
    using sint_ge [of g] by simp
  with assms show ?thesis
    by (simp add: sint_word_add signed_take_bit_int_eq_self)
qed

lemma define_columns_step:
  "i < n \<Longrightarrow>
   define_columns i n e w =
     define_columns (Suc i) n e
       (Rf_defineVar (get_variable_names (subsets w) ! i)
          (INTSXP (snd (subset_data (subsets w) ! i))) e w)"
  by (subst define_columns.simps) simp

lemma define_columns_stop: "\<not> i < n \<Longrightarrow> define_columns i n e w = w"
  by (subst define_columns.simps) simp

lemma define_columns_rest:
  "subsets (define_columns i n e w) = subsets w
   \<and> resolvers (define_columns i n e w) = resolvers w
   \<and> resolver_alive (define_columns i n e w) = resolver_alive w
   \<and> warnings (define_columns i n e w) = warnings w
   \<and> next_env (define_columns i n e w) = next_env w
   \<and> enclos (envs (define_columns i n e w) e) = enclos (envs w e)"
proof (induction i n e w rule: define_columns.induct)
  case (1 i n e w)
  show ?case
  proof (cases "i < n")
    case True
    with "1" show ?thesis
      by (simp add: define_columns_step Rf_defineVar_def)
  next
    case False
    then show ?thesis
      by (simp add: define_columns_stop)
  qed
qed

lemma define_columns_proxies:
  "proxies (define_columns i n e w) = proxies w
   \<and> next_proxy (define_columns i n e w) = next_proxy w
   \<and> next_resolver (define_columns i n e w) = next_resolver w"
proof (induction i n e w rule: define_columns.induct)
  case (1 i n e w)
  show ?case
  proof (cases "i < n")
    case True
    with "1" show ?thesis
      by (simp add: define_columns_step Rf_defineVar_def)
  next
    case False
    then show ?thesis
      by (simp add: define_columns_stop)
  qed
qed

lemmas define_columns_kept =
  define_columns_rest [THEN conjunct1]
  define_columns_rest [THEN conjunct2, THEN conjunct1]
  define_columns_rest [THEN conjunct2, THEN conjunct2, THEN conjunct1]
  define_columns_rest [THEN conjunct2, THEN conjunct2, THEN conjunct2, THEN conjunct1]
  define_columns_rest [THEN conjunct2, THEN conjunct2, THEN conjunct2, THEN conjunct2,
    THEN conjunct1]
  define_columns_rest [THEN conjunct2, THEN conjunct2, THEN conjunct2, THEN conjunct2,
    THEN conjunct2]

lemma map_of_snoc:
  "map_of (xs @ [(k, v)]) x =
     (case map_of xs x of Some c \<Rightarrow> Some c | None \<Rightarrow> if x = k then Some v else None)"
  by (simp add: map_add_def split: option.splits)

text \<open>
  The loop binds the columns from position \<open>i\<close> on; of two columns with one name
  the later one stays bound.
\<close>

lemma define_columns_frame:
  "n = length (subset_data (subsets w)) \<Longrightarrow>
   frame (envs (define_columns i n e w) e) x =
     (case map_of (rev (drop i (subset_data (subsets w)))) x of
        Some c \<Rightarrow> Some (Plain (INTSXP c))
      | None \<Rightarrow> frame (envs w e) x)"
proof (induction i n e w rule: define_columns.induct)
  case (1 i n e w)
  show ?case
  proof (cases "i < n")
    case True
    let ?sd = "subset_data (subsets w)"
    let ?w' = "Rf_defineVar (get_variable_names (subsets w) ! i) (INTSXP (snd (?sd ! i))) e w"
    have sub: "subsets ?w' = subsets w"
      by (simp add: Rf_defineVar_def)
    have step: "define_columns i n e w = define_columns (Suc i) n e ?w'"
      using True by (rule define_columns_step)
    have ih: "frame (envs (define_columns (Suc i) n e ?w') e) x =
        (case map_of (rev (drop (Suc i) ?sd)) x of
           Some c \<Rightarrow> Some (Plain (INTSXP c))
         | None \<Rightarrow> frame (envs ?w' e) x)"
      using "1.IH" [OF True] "1.prems" sub by simp
    have dr: "drop i ?sd = (fst (?sd ! i), snd (?sd ! i)) # drop (Suc i) ?sd"
      using True "1.prems" by (simp add: Cons_nth_drop_Suc)
    have nm: "get_variable_names (subsets w) ! i = fst (?sd ! i)"
      using True "1.prems" by (simp add: get_variable_names_def)
    have mp: "map_of (rev (drop i ?sd)) x =
        (case map_of (rev (drop (Suc i) ?sd)) x of
           Some c \<Rightarrow> Some c
         | None \<Rightarrow> if x = fst (?sd ! i) then Some (snd (?sd ! i)) else None)"
      unfolding dr by (simp only: rev.simps map_of_snoc)
    have fr: "frame (envs ?w' e) x =
        (if x = fst (?sd ! i) then Some (Plain (INTSXP (snd (?sd ! i))))
         else frame (envs w e) x)"
      by (simp add: nm Rf_defineVar_def)
    show ?thesis
      unfolding step ih mp fr
      by (simp split: option.splits)
  next
    case False
    then show ?thesis
      using "1.prems" by (simp add: define_columns_stop)
  qed
qed

text \<open>
  The three environments of a new data mask are the next three free addresses, and its
  resolver is the next free resolver.
\<close>

lemma DataMask_new_ids:
  "bindings (fst (DataMask_new env w0)) =
     \<lparr>mask_active = next_env w0, mask_resolved = Suc (next_env w0),
      callback = next_resolver w0\<rparr>
   \<and> overscope (fst (DataMask_new env w0)) = Suc (Suc (next_env w0))"
  by (simp add: DataMask_new_def bindings_defs host_defs callback_defs
      LazySplitSubsets_clear_def Let_def split_def)

text \<open>The world after \<^verbatim>\<open>update\<close>, and what it holds.\<close>

lemma DataMask_bindings_update_unfold:
  "DataMask_bindings_update b idx w =
     set_indices (callback b) idx (LazySplitSubsets_update idx (ENVSXP (mask_resolved b)) w)"
  by (simp add: DataMask_bindings_update_def DataMask_bindings_update_states_def Let_def)

lemma LazySplitSubsets_update_kept:
  "resolvers (LazySplitSubsets_update idx scope w) = resolvers w"
  "resolver_alive (LazySplitSubsets_update idx scope w) = resolver_alive w"
  "proxies (LazySplitSubsets_update idx scope w) = proxies w"
  "subset_data (subsets (LazySplitSubsets_update idx scope w)) = subset_data (subsets w)"
  "resolved (subsets (LazySplitSubsets_update idx scope w)) = Map.empty"
  by (simp_all add: LazySplitSubsets_update_def LazySplitSubsets_clear_def invalidate_def
      split: sexp.splits)

text \<open>
  What \<^verbatim>\<open>eval\<close> does before it calls the evaluation engine, in the order of the
  code: the world that the engine receives.
\<close>

lemma DataMask_eval_unfold:
  "DataMask_eval Rcpp_eval m expr idx w =
     Rcpp_eval expr (ENVSXP (overscope m))
       (Rf_defineVar ''..group_number'' (INTSXP [Index_group idx + 1]) (overscope m)
          (Rf_defineVar ''..group_size'' (INTSXP [Index_size idx]) (overscope m)
             (DataMask_bindings_update (bindings m) idx w)))"
  by (simp add: DataMask_eval_def Let_def)

text \<open>The evaluation engine of the examples on a name, on a failure and on an assignment.\<close>

lemma example_Rcpp_eval_name:
  "example_Rcpp_eval (LANGSXP ''..group_size'') (ENVSXP e) w =
     findVar (Suc 3) ''..group_size'' e w"
  "example_Rcpp_eval (LANGSXP ''..group_number'') (ENVSXP e) w =
     findVar (Suc 3) ''..group_number'' e w"
  "example_Rcpp_eval (LANGSXP ''helper'') (ENVSXP e) w = findVar (Suc 3) ''helper'' e w"
  "example_Rcpp_eval (LANGSXP ''x'') (ENVSXP e) w = findVar (Suc 3) ''x'' e w"
  "example_Rcpp_eval (LANGSXP ''.data'') (ENVSXP e) w = findVar (Suc 3) ''.data'' e w"
  by (simp_all add: example_Rcpp_eval_def eval_nat_numeral)

subsection \<open>The weak proxy\<close>

text \<open>
  Claim C1. For every variable name, a call of \<^verbatim>\<open>HybridCallbackWeakProxy::get_subset\<close>
  on a proxy of a binding layer that has been destroyed does not fail: it returns the
  null value and the only change of the world is one more warning. The same holds in
  every world where the resolver of the proxy no longer exists, also after another
  binding layer has been constructed; where the resolver exists, the call is the call
  of that resolver. \<^verbatim>\<open>hybrid_get_callback\<close> with the proxy in its payload is the
  call of the proxy.
\<close>

theorem weak_proxy_stale_access:
  "HybridCallbackWeakProxy_get_subset \<lparr>real = callback b\<rparr> x (DataMask_bindings_delete b w) =
     (Inr R_NilValue,
      (DataMask_bindings_delete b w)
        \<lparr>warnings := warnings w @ [''Hybrid callback proxy out of scope'']\<rparr>)
   \<and> (\<not> resolver_alive w (real px) \<longrightarrow>
        HybridCallbackWeakProxy_get_subset px x w =
          (Inr R_NilValue,
           w\<lparr>warnings := warnings w @ [''Hybrid callback proxy out of scope'']\<rparr>))
   \<and> (resolver_alive w (real px) \<longrightarrow>
        HybridCallbackWeakProxy_get_subset px x w =
          GroupedHybridEval_get_subset (real px) x w)
   \<and> (proxies w p = Some px \<longrightarrow>
        hybrid_get_callback x (EXTPTRSXP p # payload) w =
          HybridCallbackWeakProxy_get_subset px x w)
   \<and> (callback b < next_resolver w \<longrightarrow>
        HybridCallbackWeakProxy_get_subset \<lparr>real = callback b\<rparr> x
          (snd (DataMask_bindings_new parent (DataMask_bindings_delete b w))) =
        (Inr R_NilValue,
         (snd (DataMask_bindings_new parent (DataMask_bindings_delete b w)))
           \<lparr>warnings := warnings w @ [''Hybrid callback proxy out of scope'']\<rparr>))"
proof (intro conjI impI)
  show "HybridCallbackWeakProxy_get_subset \<lparr>real = callback b\<rparr> x
      (DataMask_bindings_delete b w) =
      (Inr R_NilValue,
       (DataMask_bindings_delete b w)
         \<lparr>warnings := warnings w @ [''Hybrid callback proxy out of scope'']\<rparr>)"
    by (simp add: HybridCallbackWeakProxy_get_subset_def DataMask_bindings_delete_def
        LazySplitSubsets_clear_def warning_def)
next
  assume "\<not> resolver_alive w (real px)"
  then show "HybridCallbackWeakProxy_get_subset px x w =
      (Inr R_NilValue, w\<lparr>warnings := warnings w @ [''Hybrid callback proxy out of scope'']\<rparr>)"
    by (simp add: HybridCallbackWeakProxy_get_subset_def warning_def)
next
  assume "resolver_alive w (real px)"
  then show "HybridCallbackWeakProxy_get_subset px x w =
      GroupedHybridEval_get_subset (real px) x w"
    by (simp add: HybridCallbackWeakProxy_get_subset_def)
next
  assume "proxies w p = Some px"
  then show "hybrid_get_callback x (EXTPTRSXP p # payload) w =
      HybridCallbackWeakProxy_get_subset px x w"
    by (simp add: hybrid_get_callback_def)
next
  assume old: "callback b < next_resolver w"
  let ?w' = "snd (DataMask_bindings_new parent (DataMask_bindings_delete b w))"
  from old have "\<not> resolver_alive ?w' (callback b)"
    by (simp add: bindings_defs callback_defs host_defs LazySplitSubsets_clear_def
        Let_def split_def)
  moreover have "warnings ?w' = warnings w"
    by (simp add: bindings_defs callback_defs host_defs LazySplitSubsets_clear_def
        Let_def split_def)
  ultimately show "HybridCallbackWeakProxy_get_subset \<lparr>real = callback b\<rparr> x ?w' =
      (Inr R_NilValue,
       ?w'\<lparr>warnings := warnings w @ [''Hybrid callback proxy out of scope'']\<rparr>)"
    by (simp add: HybridCallbackWeakProxy_get_subset_def warning_def)
qed

theorem weak_proxy_stale_access_witness:
  "proxies example_started 0 = Some \<lparr>real = callback example_bindings\<rparr>
   \<and> resolver_alive example_started (callback example_bindings)
   \<and> fst (hybrid_get_callback ''x'' [EXTPTRSXP 0] example_started) =
       Inr (INTSXP [12, 15, 17])
   \<and> \<not> resolver_alive (DataMask_bindings_delete example_bindings example_started)
         (callback example_bindings)
   \<and> fst (hybrid_get_callback ''x'' [EXTPTRSXP 0]
            (DataMask_bindings_delete example_bindings example_started)) = Inr R_NilValue
   \<and> warnings (snd (hybrid_get_callback ''x'' [EXTPTRSXP 0]
            (DataMask_bindings_delete example_bindings example_started))) =
       [''Hybrid callback proxy out of scope'']
   \<and> callback example_bindings < next_resolver example_started
   \<and> fst (HybridCallbackWeakProxy_get_subset \<lparr>real = callback example_bindings\<rparr> ''x''
            (snd (DataMask_bindings_new 0
                    (DataMask_bindings_delete example_bindings example_started)))) =
       Inr R_NilValue"
proof -
  let ?px = "\<lparr>real = callback example_bindings\<rparr>"
  let ?gone = "DataMask_bindings_delete example_bindings example_started"
  have proxy: "proxies example_started 0 = Some ?px"
    and same_proxy: "proxies ?gone 0 = Some ?px"
    and alive: "resolver_alive example_started (callback example_bindings)"
    and no_warning: "warnings example_started = []"
    and old: "callback example_bindings < next_resolver example_started"
    by (simp_all add: example_defs bindings_defs callback_defs subsets_defs host_defs
        Let_def split_def)
  have gone: "\<not> resolver_alive ?gone (callback example_bindings)"
    by (simp add: DataMask_bindings_delete_def)
  have subset: "fst (GroupedHybridEval_get_subset (callback example_bindings) ''x''
      example_started) = Inr (INTSXP [12, 15, 17])"
    by (simp add: example_defs bindings_defs callback_defs subsets_defs host_defs
        Let_def split_def)
  note here = weak_proxy_stale_access [where b = example_bindings and w = example_started
      and x = "''x''" and px = ?px and p = 0 and payload = "[]" and parent = 0]
  note there = weak_proxy_stale_access [where b = example_bindings and w = ?gone
      and x = "''x''" and px = ?px and p = 0 and payload = "[]" and parent = 0]
  from here proxy alive subset
  have first: "fst (hybrid_get_callback ''x'' [EXTPTRSXP 0] example_started) =
      Inr (INTSXP [12, 15, 17])"
    by simp
  from there same_proxy gone have "hybrid_get_callback ''x'' [EXTPTRSXP 0] ?gone =
      HybridCallbackWeakProxy_get_subset ?px ''x'' ?gone"
    by simp
  with here no_warning
  have stale: "fst (hybrid_get_callback ''x'' [EXTPTRSXP 0] ?gone) = Inr R_NilValue"
    and warned: "warnings (snd (hybrid_get_callback ''x'' [EXTPTRSXP 0] ?gone)) =
      [''Hybrid callback proxy out of scope'']"
    by simp_all
  from here old
  have later: "fst (HybridCallbackWeakProxy_get_subset ?px ''x''
      (snd (DataMask_bindings_new 0 ?gone))) = Inr R_NilValue"
    by simp
  from proxy alive first gone stale warned old later show ?thesis
    by (intro conjI)
qed

subsection \<open>Updating the general binding layer\<close>

text \<open>
  Claim C2. \<^verbatim>\<open>DataMask_bindings::update\<close> first updates the subset cache and then
  installs the index. In the world between the two statements the cache is empty and
  the index is still the previous one; in the world after them the cache is empty and
  the index is the new one. In both worlds no plain binding of a name that was cached
  is left in the resolved scope, and a resolution yields the subset for the index that
  is installed in that world, never a value that was cached before. After the update, a
  read of a column through the resolved scope, the active scope and the weak proxy of
  the binding layer yields the subset for the new index, provided the plain bindings of
  that name in the resolved scope came from the cache.
\<close>

theorem update_clears_then_installs:
  "DataMask_bindings_update_states b idx w =
     [LazySplitSubsets_update idx (ENVSXP (mask_resolved b)) w,
      DataMask_bindings_update b idx w]
   \<and> (\<forall>s \<in> set (DataMask_bindings_update_states b idx w).
         resolved (subsets s) = Map.empty)
   \<and> indices (resolvers (hd (DataMask_bindings_update_states b idx w)) (callback b)) =
       indices (resolvers w (callback b))
   \<and> indices (resolvers (DataMask_bindings_update b idx w) (callback b)) = Some idx
   \<and> (\<forall>s \<in> set (DataMask_bindings_update_states b idx w). \<forall>x.
         fst (GroupedHybridEval_get_subset (callback b) x s) =
           (case indices (resolvers s (callback b)) of
              None \<Rightarrow> Inl NullIndexDereference
            | Some i \<Rightarrow> subset_for (subset_data (subsets w)) i x))
   \<and> (\<forall>s \<in> set (DataMask_bindings_update_states b idx w). \<forall>x.
         resolved (subsets w) x \<noteq> None \<longrightarrow> frame (envs s (mask_resolved b)) x = None)
   \<and> (enclos (envs w (mask_resolved b)) = Some (mask_active b)
        \<and> mask_resolved b \<noteq> mask_active b
        \<and> frame (envs w (mask_active b)) x =
            Some (Active Hybrid_get_callback (EXTPTRSXP p # payload))
        \<and> proxies w p = Some \<lparr>real = callback b\<rparr>
        \<and> resolver_alive w (callback b)
        \<and> mask_env (resolvers w (callback b)) = ENVSXP (mask_resolved b)
        \<and> (frame (envs w (mask_resolved b)) x \<noteq> None \<longrightarrow> resolved (subsets w) x \<noteq> None)
      \<longrightarrow> fst (findVar (Suc (Suc k)) x (mask_resolved b) (DataMask_bindings_update b idx w)) =
            subset_for (subset_data (subsets w)) idx x)"
proof -
  let ?r = "callback b"
  let ?res = "mask_resolved b"
  let ?w1 = "LazySplitSubsets_update idx (ENVSXP ?res) w"
  let ?w2 = "set_indices ?r idx ?w1"
  have states: "DataMask_bindings_update_states b idx w = [?w1, ?w2]"
    by (simp add: DataMask_bindings_update_states_def Let_def)
  have final: "DataMask_bindings_update b idx w = ?w2"
    by (rule DataMask_bindings_update_unfold)
  have cleared1: "resolved (subsets ?w1) = Map.empty"
    by (simp add: LazySplitSubsets_update_kept)
  have cleared2: "resolved (subsets ?w2) = Map.empty"
    by (simp add: set_indices_def LazySplitSubsets_update_kept)
  have old_index: "indices (resolvers ?w1 ?r) = indices (resolvers w ?r)"
    by (simp add: LazySplitSubsets_update_kept)
  have new_index: "indices (resolvers ?w2 ?r) = Some idx"
    by (simp add: set_indices_def)
  have fresh: "fst (GroupedHybridEval_get_subset ?r x s) =
      (case indices (resolvers s ?r) of
         None \<Rightarrow> Inl NullIndexDereference
       | Some i \<Rightarrow> subset_for (subset_data (subsets w)) i x)"
    if "resolved (subsets s) = Map.empty"
      and "subset_data (subsets s) = subset_data (subsets w)" for s x
    using that
    by (simp add: GroupedHybridEval_get_subset_def get_indices_def LazySplitSubsets_get_def
        subset_for_def split: option.splits)
  have fresh1: "\<forall>x. fst (GroupedHybridEval_get_subset ?r x ?w1) =
      (case indices (resolvers ?w1 ?r) of
         None \<Rightarrow> Inl NullIndexDereference
       | Some i \<Rightarrow> subset_for (subset_data (subsets w)) i x)"
    by (intro allI fresh) (simp_all add: LazySplitSubsets_update_kept)
  have fresh2: "\<forall>x. fst (GroupedHybridEval_get_subset ?r x ?w2) =
      (case indices (resolvers ?w2 ?r) of
         None \<Rightarrow> Inl NullIndexDereference
       | Some i \<Rightarrow> subset_for (subset_data (subsets w)) i x)"
    by (intro allI fresh) (simp_all add: set_indices_def LazySplitSubsets_update_kept)
  have frame1: "frame (envs ?w1 ?res) x =
      (if resolved (subsets w) x = None then frame (envs w ?res) x else None)" for x
    by (simp add: LazySplitSubsets_update_def LazySplitSubsets_clear_def invalidate_def)
  have frame2: "frame (envs ?w2 ?res) x = frame (envs ?w1 ?res) x" for x
    by (simp add: set_indices_def)
  have gone: "\<forall>s \<in> set [?w1, ?w2]. \<forall>x.
      resolved (subsets w) x \<noteq> None \<longrightarrow> frame (envs s ?res) x = None"
    by (simp add: frame1 frame2)
  have chain: "fst (findVar (Suc (Suc k)) x ?res ?w2) =
      subset_for (subset_data (subsets w)) idx x"
    if parent: "enclos (envs w ?res) = Some (mask_active b)"
      and distinct: "?res \<noteq> mask_active b"
      and active: "frame (envs w (mask_active b)) x =
        Some (Active Hybrid_get_callback (EXTPTRSXP p # payload))"
      and proxy: "proxies w p = Some \<lparr>real = ?r\<rparr>"
      and alive: "resolver_alive w ?r"
      and scope: "mask_env (resolvers w ?r) = ENVSXP ?res"
      and coherent: "frame (envs w ?res) x \<noteq> None \<longrightarrow> resolved (subsets w) x \<noteq> None"
  proof -
    from coherent have inner: "frame (envs ?w2 ?res) x = None"
      by (auto simp add: frame1 frame2)
    from parent have up: "enclos (envs ?w2 ?res) = Some (mask_active b)"
      by (simp add: set_indices_def LazySplitSubsets_update_def LazySplitSubsets_clear_def
          invalidate_def)
    from active distinct have outer: "frame (envs ?w2 (mask_active b)) x =
        Some (Active Hybrid_get_callback (EXTPTRSXP p # payload))"
      by (simp add: set_indices_def LazySplitSubsets_update_def LazySplitSubsets_clear_def
          invalidate_def)
    from proxy have proxy2: "proxies ?w2 p = Some \<lparr>real = ?r\<rparr>"
      by (simp add: set_indices_def LazySplitSubsets_update_kept)
    from alive have alive2: "resolver_alive ?w2 ?r"
      by (simp add: set_indices_def LazySplitSubsets_update_kept)
    have "findVar (Suc (Suc k)) x ?res ?w2 = GroupedHybridEval_get_subset ?r x ?w2"
      by (simp add: inner up outer proxy2 alive2 hybrid_get_callback_def
          HybridCallbackWeakProxy_get_subset_def)
    with fresh2 new_index show ?thesis
      by simp
  qed
  show ?thesis
    unfolding states final
    using cleared1 cleared2 old_index new_index fresh1 fresh2 gone chain
    by (simp del: findVar.simps)
qed

theorem update_clears_then_installs_witness:
  "fst (findVar (Suc (Suc 0)) ''x'' 2 example_cached) = Inr (INTSXP [12, 15, 17])
   \<and> frame (envs example_cached 2) ''x'' = Some (Plain (INTSXP [12, 15, 17]))
   \<and> resolved (subsets example_cached) ''x'' = Some (INTSXP [12, 15, 17])
   \<and> resolved (subsets (hd (DataMask_bindings_update_states example_bindings other_index
        example_cached))) = Map.empty
   \<and> indices (resolvers (hd (DataMask_bindings_update_states example_bindings other_index
        example_cached)) 0) = Some example_index
   \<and> frame (envs (hd (DataMask_bindings_update_states example_bindings other_index
        example_cached)) 2) ''x'' = None
   \<and> indices (resolvers (DataMask_bindings_update example_bindings other_index
        example_cached) 0) = Some other_index
   \<and> fst (findVar (Suc (Suc 0)) ''x'' 2
          (DataMask_bindings_update example_bindings other_index example_cached)) =
       Inr (INTSXP [10, 11])"
proof -
  let ?states = "DataMask_bindings_update_states example_bindings other_index example_cached"
  have ids: "mask_active example_bindings = 1" "mask_resolved example_bindings = 2"
    "callback example_bindings = 0"
    by (simp_all add: example_defs bindings_defs callback_defs subsets_defs host_defs
        Let_def split_def)
  have bindings: "example_bindings = \<lparr>mask_active = 1, mask_resolved = 2, callback = 0\<rparr>"
    using ids by (cases example_bindings) simp
  have cached: "fst (findVar (Suc (Suc 0)) ''x'' 2 example_cached) = Inr (INTSXP [12, 15, 17])"
    and plain: "frame (envs example_cached 2) ''x'' = Some (Plain (INTSXP [12, 15, 17]))"
    and entry: "resolved (subsets example_cached) ''x'' = Some (INTSXP [12, 15, 17])"
    and data: "subset_data (subsets example_cached) = subset_data example_subsets"
    and before: "indices (resolvers example_cached 0) = Some example_index"
    and parent: "enclos (envs example_cached 2) = Some 1"
    and active: "frame (envs example_cached 1) ''x'' =
      Some (Active Hybrid_get_callback [EXTPTRSXP 0])"
    and proxy: "proxies example_cached 0 = Some \<lparr>real = 0\<rparr>"
    and alive: "resolver_alive example_cached 0"
    and scope: "mask_env (resolvers example_cached 0) = ENVSXP 2"
    by (simp_all add: example_cached_def example_started_def bindings example_bound_def
        example_world_def example_subsets_def example_index_def bindings_defs callback_defs
        subsets_defs host_defs Let_def split_def)
  note upd = update_clears_then_installs [where b = example_bindings and idx = other_index
      and w = example_cached and x = "''x''" and p = 0 and payload = "[]" and k = 0,
      unfolded ids]
  from upd have shape: "?states =
      [LazySplitSubsets_update other_index (ENVSXP 2) example_cached,
       DataMask_bindings_update example_bindings other_index example_cached]"
    by (elim conjE)
  then have first: "hd ?states \<in> set ?states"
    by simp
  from upd have "\<forall>s \<in> set ?states. resolved (subsets s) = Map.empty"
    by (elim conjE)
  with first have cleared: "resolved (subsets (hd ?states)) = Map.empty"
    by blast
  from upd have "indices (resolvers (hd ?states) 0) = indices (resolvers example_cached 0)"
    by (elim conjE)
  with before have between: "indices (resolvers (hd ?states) 0) = Some example_index"
    by simp
  from upd have after: "indices (resolvers (DataMask_bindings_update example_bindings
      other_index example_cached) 0) = Some other_index"
    by (elim conjE)
  from upd have "\<forall>s \<in> set ?states. \<forall>x. resolved (subsets example_cached) x \<noteq> None \<longrightarrow>
      frame (envs s 2) x = None"
    by (elim conjE)
  with first have "\<forall>x. resolved (subsets example_cached) x \<noteq> None \<longrightarrow>
      frame (envs (hd ?states) 2) x = None"
    by blast
  with entry have removed: "frame (envs (hd ?states) 2) ''x'' = None"
    by simp
  from upd have "enclos (envs example_cached 2) = Some 1
      \<and> (2::nat) \<noteq> 1
      \<and> frame (envs example_cached 1) ''x'' =
          Some (Active Hybrid_get_callback [EXTPTRSXP 0])
      \<and> proxies example_cached 0 = Some \<lparr>real = 0\<rparr>
      \<and> resolver_alive example_cached 0
      \<and> mask_env (resolvers example_cached 0) = ENVSXP 2
      \<and> (frame (envs example_cached 2) ''x'' \<noteq> None \<longrightarrow>
          resolved (subsets example_cached) ''x'' \<noteq> None)
    \<longrightarrow> fst (findVar (Suc (Suc 0)) ''x'' 2
              (DataMask_bindings_update example_bindings other_index example_cached)) =
          subset_for (subset_data (subsets example_cached)) other_index ''x''"
    by (elim conjE)
  with parent active proxy alive scope entry
  have "fst (findVar (Suc (Suc 0)) ''x'' 2
      (DataMask_bindings_update example_bindings other_index example_cached)) =
      subset_for (subset_data (subsets example_cached)) other_index ''x''"
    by (simp del: findVar.simps)
  then have fresh: "fst (findVar (Suc (Suc 0)) ''x'' 2
      (DataMask_bindings_update example_bindings other_index example_cached)) =
      Inr (INTSXP [10, 11])"
    by (simp add: data subset_for_def gather_def example_subsets_def other_index_def
        del: findVar.simps)
  from cached plain entry cleared between removed after fresh show ?thesis
    by (intro conjI)
qed

text \<open>
  The order matters: had the index been installed before the cache was updated, the
  world between the two statements would hold the new index together with the subset
  cached for the previous one, and a resolution there would yield that subset.
\<close>

lemma index_installed_before_clearing_is_stale:
  "indices (resolvers (set_indices 0 other_index example_cached) 0) = Some other_index
   \<and> fst (GroupedHybridEval_get_subset 0 ''x'' (set_indices 0 other_index example_cached)) =
       Inr (INTSXP [12, 15, 17])
   \<and> subset_for (subset_data (subsets example_cached)) other_index ''x'' =
       Inr (INTSXP [10, 11])"
  by (simp add: example_cached_def example_defs bindings_defs callback_defs subsets_defs
      host_defs subset_for_def Let_def split_def)

subsection \<open>Evaluating an expression for a group\<close>

text \<open>
  Claim C3. For every expression and every slicing index, \<^verbatim>\<open>DataMask::eval\<close> hands
  the expression and the evaluation scope to the evaluation engine and returns the
  engine's result as it is. The world the engine receives is the one after
  \<^verbatim>\<open>update(indices)\<close> (the index is installed, the cache is empty) in which two plain
  bindings of the evaluation scope have been written and nothing else has changed:
  \<^verbatim>\<open>..group_size\<close> reads as the number of rows of the index and
  \<^verbatim>\<open>..group_number\<close> as its group ordinal plus one. For the rows 2, 5 and 7 the size
  reads as 3. Both numbers are C++ \<^verbatim>\<open>int\<close>s: they are the row count and the successor
  of the ordinal as long as these fit.
\<close>

theorem eval_writes_metadata_then_delegates:
  "\<exists>w3. (\<forall>Rcpp_eval expr. DataMask_eval Rcpp_eval m expr idx w =
              Rcpp_eval expr (ENVSXP (overscope m)) w3)
     \<and> indices (resolvers w3 (callback (bindings m))) = Some idx
     \<and> resolved (subsets w3) = Map.empty
     \<and> findVar (Suc k) ''..group_size'' (overscope m) w3 =
         (Inr (INTSXP [of_nat (length (index_rows idx))]), w3)
     \<and> findVar (Suc k) ''..group_number'' (overscope m) w3 =
         (Inr (INTSXP [index_group idx + 1]), w3)
     \<and> (\<forall>x. x \<noteq> ''..group_size'' \<and> x \<noteq> ''..group_number'' \<longrightarrow>
           frame (envs w3 (overscope m)) x =
           frame (envs (DataMask_bindings_update (bindings m) idx w) (overscope m)) x)
     \<and> enclos (envs w3 (overscope m)) =
         enclos (envs (DataMask_bindings_update (bindings m) idx w) (overscope m))
     \<and> (\<forall>e. e \<noteq> overscope m \<longrightarrow>
           envs w3 e = envs (DataMask_bindings_update (bindings m) idx w) e)
     \<and> (index_rows idx = [2, 5, 7] \<longrightarrow>
           findVar (Suc k) ''..group_size'' (overscope m) w3 = (Inr (INTSXP [3]), w3))
     \<and> (length (index_rows idx) < 2 ^ 31 \<longrightarrow>
           sint (Index_size idx) = int (length (index_rows idx)))
     \<and> (sint (index_group idx) < 2 ^ 31 - 1 \<longrightarrow>
           sint (Index_group idx + 1) = sint (index_group idx) + 1)"
proof -
  let ?ov = "overscope m"
  let ?w1 = "DataMask_bindings_update (bindings m) idx w"
  let ?w3 = "Rf_defineVar ''..group_number'' (INTSXP [Index_group idx + 1]) ?ov
      (Rf_defineVar ''..group_size'' (INTSXP [Index_size idx]) ?ov ?w1)"
  have delegates: "\<forall>Rcpp_eval expr. DataMask_eval Rcpp_eval m expr idx w =
      Rcpp_eval expr (ENVSXP ?ov) ?w3"
    by (simp add: DataMask_eval_unfold)
  have installed: "indices (resolvers ?w3 (callback (bindings m))) = Some idx"
    by (simp add: Rf_defineVar_def DataMask_bindings_update_unfold set_indices_def)
  have cleared: "resolved (subsets ?w3) = Map.empty"
    by (simp add: Rf_defineVar_def DataMask_bindings_update_unfold set_indices_def
        LazySplitSubsets_update_kept)
  have size: "findVar (Suc k) ''..group_size'' ?ov ?w3 =
      (Inr (INTSXP [of_nat (length (index_rows idx))]), ?w3)"
    by (simp add: Rf_defineVar_def Index_size_def)
  have number: "findVar (Suc k) ''..group_number'' ?ov ?w3 =
      (Inr (INTSXP [index_group idx + 1]), ?w3)"
    by (simp add: Rf_defineVar_def Index_group_def)
  have others: "\<forall>x. x \<noteq> ''..group_size'' \<and> x \<noteq> ''..group_number'' \<longrightarrow>
      frame (envs ?w3 ?ov) x = frame (envs ?w1 ?ov) x"
    by (simp add: Rf_defineVar_def)
  have parent: "enclos (envs ?w3 ?ov) = enclos (envs ?w1 ?ov)"
    by (simp add: Rf_defineVar_def)
  have elsewhere: "\<forall>e. e \<noteq> ?ov \<longrightarrow> envs ?w3 e = envs ?w1 e"
    by (simp add: Rf_defineVar_def)
  have three: "index_rows idx = [2, 5, 7] \<longrightarrow>
      findVar (Suc k) ''..group_size'' ?ov ?w3 = (Inr (INTSXP [3]), ?w3)"
    using size by simp
  have fits: "length (index_rows idx) < 2 ^ 31 \<longrightarrow>
      sint (Index_size idx) = int (length (index_rows idx))"
    by (simp add: Index_size_def sint_of_nat_small)
  have succ: "sint (index_group idx) < 2 ^ 31 - 1 \<longrightarrow>
      sint (Index_group idx + 1) = sint (index_group idx) + 1"
    by (simp add: Index_group_def sint_succ_small)
  show ?thesis
    by (rule exI [where x = ?w3], intro conjI)
      (fact delegates installed cleared size number others parent elsewhere three fits succ)+
qed

theorem eval_writes_metadata_then_delegates_witness:
  "fst (DataMask_eval example_Rcpp_eval example_mask (LANGSXP ''..group_size'')
          example_index example_session) = Inr (INTSXP [3])
   \<and> fst (DataMask_eval example_Rcpp_eval example_mask (LANGSXP ''..group_number'')
          example_index example_session) = Inr (INTSXP [5])
   \<and> fst (DataMask_eval example_Rcpp_eval example_mask (LANGSXP ''.data'')
          example_index example_session) = Inr (PRONOUN 1)
   \<and> index_rows example_index = [2, 5, 7]
   \<and> length (index_rows example_index) < 2 ^ 31
   \<and> sint (Index_size example_index) = 3
   \<and> sint (index_group example_index) < 2 ^ 31 - 1
   \<and> sint (Index_group example_index + 1) = 5"
proof -
  from eval_writes_metadata_then_delegates [of example_mask example_index
      example_session 3]
  obtain w3 where
    run: "\<forall>Rcpp_eval expr. DataMask_eval Rcpp_eval example_mask expr example_index
        example_session = Rcpp_eval expr (ENVSXP (overscope example_mask)) w3"
    and size: "findVar (Suc 3) ''..group_size'' (overscope example_mask) w3 =
        (Inr (INTSXP [of_nat (length (index_rows example_index))]), w3)"
    and number: "findVar (Suc 3) ''..group_number'' (overscope example_mask) w3 =
        (Inr (INTSXP [index_group example_index + 1]), w3)"
    and others: "\<forall>x. x \<noteq> ''..group_size'' \<and> x \<noteq> ''..group_number'' \<longrightarrow>
        frame (envs w3 (overscope example_mask)) x =
        frame (envs (DataMask_bindings_update (bindings example_mask) example_index
                 example_session) (overscope example_mask)) x"
    and fits: "length (index_rows example_index) < 2 ^ 31 \<longrightarrow>
        sint (Index_size example_index) = int (length (index_rows example_index))"
    and succ: "sint (index_group example_index) < 2 ^ 31 - 1 \<longrightarrow>
        sint (Index_group example_index + 1) = sint (index_group example_index) + 1"
    by (elim exE conjE)
  have "frame (envs (DataMask_bindings_update (bindings example_mask) example_index
      example_session) (overscope example_mask)) ''.data'' = Some (Plain (PRONOUN 1))"
    by (simp add: example_defs bindings_defs callback_defs subsets_defs host_defs
        Let_def split_def)
  with others have "frame (envs w3 (overscope example_mask)) ''.data'' =
      Some (Plain (PRONOUN 1))"
    by simp
  then have "findVar (Suc 3) ''.data'' (overscope example_mask) w3 = (Inr (PRONOUN 1), w3)"
    by (subst findVar.simps) simp
  then have pronoun: "fst (DataMask_eval example_Rcpp_eval example_mask (LANGSXP ''.data'')
      example_index example_session) = Inr (PRONOUN 1)"
    by (simp only: run example_Rcpp_eval_name fst_conv)
  have rows: "index_rows example_index = [2, 5, 7]"
    and ordinal: "sint (index_group example_index) = 4"
    by (simp_all add: example_index_def)
  have "fst (DataMask_eval example_Rcpp_eval example_mask (LANGSXP ''..group_size'')
      example_index example_session) =
      fst (findVar (Suc 3) ''..group_size'' (overscope example_mask) w3)"
    by (simp only: run example_Rcpp_eval_name)
  then have size3: "fst (DataMask_eval example_Rcpp_eval example_mask
      (LANGSXP ''..group_size'') example_index example_session) = Inr (INTSXP [3])"
    by (simp only: size rows) simp
  have "fst (DataMask_eval example_Rcpp_eval example_mask (LANGSXP ''..group_number'')
      example_index example_session) =
      fst (findVar (Suc 3) ''..group_number'' (overscope example_mask) w3)"
    by (simp only: run example_Rcpp_eval_name)
  then have number5: "fst (DataMask_eval example_Rcpp_eval example_mask
      (LANGSXP ''..group_number'') example_index example_session) = Inr (INTSXP [5])"
    by (simp only: number) (simp add: example_index_def)
  have small: "length (index_rows example_index) < 2 ^ 31"
    by (simp add: rows)
  have below: "sint (index_group example_index) < 2 ^ 31 - 1"
    by (simp add: ordinal)
  have s3: "sint (Index_size example_index) = 3"
    using fits small by (simp add: rows)
  have s5: "sint (Index_group example_index + 1) = 5"
    using succ below by (simp add: ordinal)
  from size3 number5 pronoun rows small s3 below s5 show ?thesis
    by (intro conjI)
qed

subsection \<open>Resolving a name\<close>

text \<open>
  Claim C4. While the resolver of a weak proxy exists and an index is installed in it, a
  resolution through the callback of an active binding whose payload holds the proxy,
  and one through the proxy the resolver owns, is the call of \<^verbatim>\<open>subsets.get\<close> with
  the index installed at that moment and the scope stored in the resolver. A resolution
  leaves the installed index, the stored scope, the resolver and the proxy in place, so
  a nested resolution uses the same index. For a binding layer that was constructed and
  updated twice, the index is the one of the second update and the scope is the resolved
  scope, for the payload the constructor made and for a read of a declared name in the
  active scope.
\<close>

theorem resolution_reads_installed_index:
  "(proxies w p = Some px \<and> resolver_alive w (real px)
      \<and> indices (resolvers w (real px)) = Some idx \<longrightarrow>
      hybrid_get_callback x (EXTPTRSXP p # payload) w =
        LazySplitSubsets_get x idx (mask_env (resolvers w (real px))) w
    \<and> HybridCallbackProxy_get_subset (real px) x w =
        LazySplitSubsets_get x idx (mask_env (resolvers w (real px))) w
    \<and> indices (resolvers (snd (hybrid_get_callback x (EXTPTRSXP p # payload) w)) (real px)) =
        Some idx
    \<and> mask_env (resolvers (snd (hybrid_get_callback x (EXTPTRSXP p # payload) w)) (real px)) =
        mask_env (resolvers w (real px))
    \<and> resolver_alive (snd (hybrid_get_callback x (EXTPTRSXP p # payload) w)) (real px)
    \<and> proxies (snd (hybrid_get_callback x (EXTPTRSXP p # payload) w)) p = Some px
    \<and> hybrid_get_callback y (EXTPTRSXP p # payload)
          (snd (hybrid_get_callback x (EXTPTRSXP p # payload) w)) =
        LazySplitSubsets_get y idx (mask_env (resolvers w (real px)))
          (snd (hybrid_get_callback x (EXTPTRSXP p # payload) w)))
   \<and> (case DataMask_bindings_new parent w0 of
        (b, w1) \<Rightarrow>
          hybrid_get_callback x [EXTPTRSXP (next_proxy w0)]
            (DataMask_bindings_update b idx2 (DataMask_bindings_update b idx1 w1)) =
          LazySplitSubsets_get x idx2 (bottom b)
            (DataMask_bindings_update b idx2 (DataMask_bindings_update b idx1 w1))
        \<and> (x \<in> set (get_variable_names (subsets w0)) \<longrightarrow>
             findVar (Suc k) x (mask_active b)
               (DataMask_bindings_update b idx2 (DataMask_bindings_update b idx1 w1)) =
             LazySplitSubsets_get x idx2 (bottom b)
               (DataMask_bindings_update b idx2 (DataMask_bindings_update b idx1 w1))))"
proof (intro conjI impI)
  let ?pl = "EXTPTRSXP p # payload"
  let ?r = "real px"
  assume live: "proxies w p = Some px \<and> resolver_alive w ?r
      \<and> indices (resolvers w ?r) = Some idx"
  then have forward: "hybrid_get_callback x ?pl w =
      LazySplitSubsets_get x idx (mask_env (resolvers w ?r)) w" for x
    by (simp add: callback_defs)
  have kept: "resolvers (snd (LazySplitSubsets_get x idx s w)) = resolvers w
      \<and> resolver_alive (snd (LazySplitSubsets_get x idx s w)) = resolver_alive w
      \<and> proxies (snd (LazySplitSubsets_get x idx s w)) = proxies w" for s
    by (simp add: LazySplitSubsets_get_def install_def Rf_defineVar_def
        split: option.splits sexp.splits)
  show "hybrid_get_callback x ?pl w =
      LazySplitSubsets_get x idx (mask_env (resolvers w ?r)) w"
    by (rule forward)
  show "HybridCallbackProxy_get_subset ?r x w =
      LazySplitSubsets_get x idx (mask_env (resolvers w ?r)) w"
    using live by (simp add: callback_defs)
  show "indices (resolvers (snd (hybrid_get_callback x ?pl w)) ?r) = Some idx"
    using live kept by (simp add: forward)
  show "mask_env (resolvers (snd (hybrid_get_callback x ?pl w)) ?r) =
      mask_env (resolvers w ?r)"
    using kept by (simp add: forward)
  show "resolver_alive (snd (hybrid_get_callback x ?pl w)) ?r"
    using live kept by (simp add: forward)
  show "proxies (snd (hybrid_get_callback x ?pl w)) p = Some px"
    using live kept by (simp add: forward)
  show "hybrid_get_callback y ?pl (snd (hybrid_get_callback x ?pl w)) =
      LazySplitSubsets_get y idx (mask_env (resolvers w ?r)) (snd (hybrid_get_callback x ?pl w))"
    using live kept [of "mask_env (resolvers w ?r)"]
    by (simp add: forward callback_defs)
next
  let ?b = "fst (DataMask_bindings_new parent w0)"
  let ?w1 = "snd (DataMask_bindings_new parent w0)"
  let ?w2 = "DataMask_bindings_update ?b idx2 (DataMask_bindings_update ?b idx1 ?w1)"
  have made: "callback ?b = next_resolver w0"
    "proxies ?w1 (next_proxy w0) = Some \<lparr>real = next_resolver w0\<rparr>"
    "resolver_alive ?w1 (next_resolver w0)"
    "mask_env (resolvers ?w1 (next_resolver w0)) = bottom ?b"
    "frame (envs ?w1 (mask_active ?b)) x =
       (if x \<in> set (get_variable_names (subsets w0))
        then Some (Active Hybrid_get_callback [EXTPTRSXP (next_proxy w0)]) else None)"
    "mask_resolved ?b \<noteq> mask_active ?b"
    by (simp_all add: bindings_defs callback_defs host_defs LazySplitSubsets_clear_def
        Let_def split_def)
  have updated: "proxies (DataMask_bindings_update b i v) = proxies v
      \<and> resolver_alive (DataMask_bindings_update b i v) = resolver_alive v
      \<and> mask_env (resolvers (DataMask_bindings_update b i v) (callback b)) =
          mask_env (resolvers v (callback b))
      \<and> indices (resolvers (DataMask_bindings_update b i v) (callback b)) = Some i
      \<and> (e \<noteq> mask_resolved b \<longrightarrow>
          envs (DataMask_bindings_update b i v) e = envs v e)" for b i v e
    by (simp add: DataMask_bindings_update_unfold set_indices_def LazySplitSubsets_update_kept
        LazySplitSubsets_update_def LazySplitSubsets_clear_def invalidate_def)
  have call: "hybrid_get_callback x [EXTPTRSXP (next_proxy w0)] ?w2 =
      LazySplitSubsets_get x idx2 (bottom ?b) ?w2"
    using made(2-4) updated [of ?b idx2 "DataMask_bindings_update ?b idx1 ?w1"]
      updated [of ?b idx1 ?w1]
    by (simp add: made(1) callback_defs)
  have read: "findVar (Suc k) x (mask_active ?b) ?w2 =
      LazySplitSubsets_get x idx2 (bottom ?b) ?w2"
    if "x \<in> set (get_variable_names (subsets w0))"
  proof -
    have "frame (envs ?w2 (mask_active ?b)) x = frame (envs ?w1 (mask_active ?b)) x"
      using made(6) updated [of ?b idx2 "DataMask_bindings_update ?b idx1 ?w1"
          "mask_active ?b"] updated [of ?b idx1 ?w1 "mask_active ?b"]
      by simp
    with that made(5) have "frame (envs ?w2 (mask_active ?b)) x =
        Some (Active Hybrid_get_callback [EXTPTRSXP (next_proxy w0)])"
      by simp
    then show ?thesis
      by (simp add: call)
  qed
  show "case DataMask_bindings_new parent w0 of
      (b, w1) \<Rightarrow>
        hybrid_get_callback x [EXTPTRSXP (next_proxy w0)]
          (DataMask_bindings_update b idx2 (DataMask_bindings_update b idx1 w1)) =
        LazySplitSubsets_get x idx2 (bottom b)
          (DataMask_bindings_update b idx2 (DataMask_bindings_update b idx1 w1))
      \<and> (x \<in> set (get_variable_names (subsets w0)) \<longrightarrow>
           findVar (Suc k) x (mask_active b)
             (DataMask_bindings_update b idx2 (DataMask_bindings_update b idx1 w1)) =
           LazySplitSubsets_get x idx2 (bottom b)
             (DataMask_bindings_update b idx2 (DataMask_bindings_update b idx1 w1)))"
    using call read by (simp add: split_def del: findVar.simps)
qed

theorem resolution_reads_installed_index_witness:
  "proxies example_started 0 = Some \<lparr>real = 0\<rparr>
   \<and> resolver_alive example_started 0
   \<and> indices (resolvers example_started 0) = Some example_index
   \<and> hybrid_get_callback ''y'' [EXTPTRSXP 0] example_started =
       LazySplitSubsets_get ''y'' example_index (ENVSXP 2) example_started
   \<and> fst (hybrid_get_callback ''y'' [EXTPTRSXP 0] example_started) =
       Inr (INTSXP [22, 25, 27])
   \<and> fst (hybrid_get_callback ''x'' [EXTPTRSXP 0]
            (snd (hybrid_get_callback ''y'' [EXTPTRSXP 0] example_started))) =
       Inr (INTSXP [12, 15, 17])
   \<and> ''y'' \<in> set (get_variable_names (subsets example_world))
   \<and> fst (findVar (Suc 0) ''y'' 1
            (DataMask_bindings_update example_bindings other_index example_started)) =
       Inr (INTSXP [20, 21])"
proof -
  have bindings: "example_bindings = \<lparr>mask_active = 1, mask_resolved = 2, callback = 0\<rparr>"
    by (simp add: example_defs bindings_defs callback_defs subsets_defs host_defs
        Let_def split_def)
  have live: "proxies example_started 0 = Some \<lparr>real = 0\<rparr>
      \<and> resolver_alive example_started (real \<lparr>real = 0\<rparr>)
      \<and> indices (resolvers example_started (real \<lparr>real = 0\<rparr>)) = Some example_index"
    by (simp add: example_defs bindings_defs callback_defs subsets_defs host_defs
        Let_def split_def)
  have scope: "mask_env (resolvers example_started (real \<lparr>real = (0::nat)\<rparr>)) = ENVSXP 2"
    by (simp add: example_defs bindings_defs callback_defs subsets_defs host_defs
        Let_def split_def)
  note res = resolution_reads_installed_index [where w = example_started
      and idx = example_index and x = "''y''" and y = "''x''" and p = 0
      and px = "\<lparr>real = 0\<rparr>" and payload = "[]",
      THEN conjunct1, THEN mp, OF live]
  have first: "hybrid_get_callback ''y'' [EXTPTRSXP 0] example_started =
      LazySplitSubsets_get ''y'' example_index (ENVSXP 2) example_started"
    using res [THEN conjunct1] by (simp only: scope)
  have nested:
    "hybrid_get_callback ''x'' [EXTPTRSXP 0]
        (snd (hybrid_get_callback ''y'' [EXTPTRSXP 0] example_started)) =
      LazySplitSubsets_get ''x'' example_index (ENVSXP 2)
        (snd (LazySplitSubsets_get ''y'' example_index (ENVSXP 2) example_started))"
    using res [THEN conjunct2, THEN conjunct2, THEN conjunct2, THEN conjunct2,
        THEN conjunct2, THEN conjunct2]
    by (simp only: scope first)
  have a: "fst (LazySplitSubsets_get ''y'' example_index (ENVSXP 2) example_started) =
      Inr (INTSXP [22, 25, 27])"
    by (simp add: example_defs bindings_defs callback_defs subsets_defs host_defs
        Let_def split_def)
  have b: "fst (LazySplitSubsets_get ''x'' example_index (ENVSXP 2)
      (snd (LazySplitSubsets_get ''y'' example_index (ENVSXP 2) example_started))) =
      Inr (INTSXP [12, 15, 17])"
    by (simp add: example_defs bindings_defs callback_defs subsets_defs host_defs
        Let_def split_def)
  have outer: "fst (hybrid_get_callback ''y'' [EXTPTRSXP 0] example_started) =
      Inr (INTSXP [22, 25, 27])"
    by (simp only: first a)
  have inner: "fst (hybrid_get_callback ''x'' [EXTPTRSXP 0]
      (snd (hybrid_get_callback ''y'' [EXTPTRSXP 0] example_started))) =
      Inr (INTSXP [12, 15, 17])"
    by (simp only: nested b)
  have declared: "''y'' \<in> set (get_variable_names (subsets example_world))"
    by (simp add: example_world_def example_subsets_def get_variable_names_def)
  have pair: "DataMask_bindings_new 0 example_world = (example_bindings, example_bound)"
    by (simp add: example_bindings_def example_bound_def)
  note twice = resolution_reads_installed_index [where parent = 0 and ?w0.0 = example_world
      and x = "''y''" and ?idx1.0 = example_index and ?idx2.0 = other_index and k = 0,
      THEN conjunct2, unfolded pair prod.case, THEN conjunct2, THEN mp, OF declared,
      folded example_started_def]
  have "fst (LazySplitSubsets_get ''y'' other_index (bottom example_bindings)
      (DataMask_bindings_update example_bindings other_index example_started)) =
      Inr (INTSXP [20, 21])"
    by (simp add: example_started_def bindings example_bound_def example_world_def
        example_subsets_def example_index_def other_index_def bindings_defs callback_defs
        subsets_defs host_defs Let_def split_def)
  with twice have second: "fst (findVar (Suc 0) ''y'' 1
      (DataMask_bindings_update example_bindings other_index example_started)) =
      Inr (INTSXP [20, 21])"
    by (simp add: bindings del: findVar.simps)
  from live [THEN conjunct1] live [THEN conjunct2, THEN conjunct1, simplified]
    live [THEN conjunct2, THEN conjunct2, simplified] first outer inner declared second
  show ?thesis
    by (intro conjI)
qed

subsection \<open>Constructing the general binding layer\<close>

text \<open>
  Claim C5. The constructor of the general binding layer makes a new resolver and a new
  weak proxy whose weak pointer is to that resolver. It makes the active scope, a child
  of the given parent whose frame holds, for each declared variable name and for no
  other name, an active binding with the function \<^verbatim>\<open>hybrid_get_callback\<close> and the
  payload that holds that proxy; so a read of such a name in the active scope is a call
  of that weak proxy. It makes the resolved scope, an empty child of the active scope;
  it clears the subset cache; it stores the resolved scope in the resolver, which exists
  from then on. Afterwards \<^verbatim>\<open>bottom()\<close> is the resolved scope and \<^verbatim>\<open>top()\<close> the
  active scope, two different environments, and no other environment, proxy or
  resolver has changed.
\<close>

theorem bindings_constructor:
  "case DataMask_bindings_new parent w of
     (b, w1) \<Rightarrow>
       (\<forall>x. frame (envs w1 (mask_active b)) x =
             (if x \<in> set (get_variable_names (subsets w))
              then Some (Active Hybrid_get_callback [EXTPTRSXP (next_proxy w)]) else None))
     \<and> proxies w1 (next_proxy w) = Some \<lparr>real = callback b\<rparr>
     \<and> callback b = next_resolver w
     \<and> (\<forall>x \<in> set (get_variable_names (subsets w)).
           findVar (Suc k) x (mask_active b) w1 =
             HybridCallbackWeakProxy_get_subset \<lparr>real = callback b\<rparr> x w1)
     \<and> enclos (envs w1 (mask_active b)) = Some parent
     \<and> enclos (envs w1 (mask_resolved b)) = Some (mask_active b)
     \<and> frame (envs w1 (mask_resolved b)) = Map.empty
     \<and> resolved (subsets w1) = Map.empty
     \<and> subset_data (subsets w1) = subset_data (subsets w)
     \<and> mask_env (resolvers w1 (callback b)) = ENVSXP (mask_resolved b)
     \<and> resolver_alive w1 (callback b)
     \<and> bottom b = ENVSXP (mask_resolved b)
     \<and> top_env b = ENVSXP (mask_active b)
     \<and> mask_resolved b \<noteq> mask_active b
     \<and> (\<forall>e. e \<noteq> mask_active b \<and> e \<noteq> mask_resolved b \<longrightarrow> envs w1 e = envs w e)
     \<and> (\<forall>q. q \<noteq> next_proxy w \<longrightarrow> proxies w1 q = proxies w q)
     \<and> (\<forall>r. r \<noteq> callback b \<longrightarrow>
           resolvers w1 r = resolvers w r \<and> resolver_alive w1 r = resolver_alive w r)"
proof -
  let ?b = "fst (DataMask_bindings_new parent w)"
  let ?w1 = "snd (DataMask_bindings_new parent w)"
  let ?names = "get_variable_names (subsets w)"
  have bound: "frame (envs ?w1 (mask_active ?b)) x =
      (if x \<in> set ?names
       then Some (Active Hybrid_get_callback [EXTPTRSXP (next_proxy w)]) else None)" for x
    by (simp add: bindings_defs callback_defs host_defs LazySplitSubsets_clear_def
        Let_def split_def)
  have proxy: "proxies ?w1 (next_proxy w) = Some \<lparr>real = callback ?b\<rparr>"
    and resolver: "callback ?b = next_resolver w"
    by (simp_all add: bindings_defs callback_defs host_defs LazySplitSubsets_clear_def
        Let_def split_def)
  have routed: "findVar (Suc k) x (mask_active ?b) ?w1 =
      HybridCallbackWeakProxy_get_subset \<lparr>real = callback ?b\<rparr> x ?w1"
    if "x \<in> set ?names" for x
  proof -
    from that bound have "findVar (Suc k) x (mask_active ?b) ?w1 =
        call_getter Hybrid_get_callback x [EXTPTRSXP (next_proxy w)] ?w1"
      by simp
    also have "\<dots> = hybrid_get_callback x [EXTPTRSXP (next_proxy w)] ?w1"
      by simp
    also from proxy have "\<dots> = HybridCallbackWeakProxy_get_subset \<lparr>real = callback ?b\<rparr> x ?w1"
      by (simp add: hybrid_get_callback_def)
    finally show ?thesis .
  qed
  have scopes: "enclos (envs ?w1 (mask_active ?b)) = Some parent"
    "enclos (envs ?w1 (mask_resolved ?b)) = Some (mask_active ?b)"
    "frame (envs ?w1 (mask_resolved ?b)) = Map.empty"
    "mask_resolved ?b \<noteq> mask_active ?b"
    "\<forall>e. e \<noteq> mask_active ?b \<and> e \<noteq> mask_resolved ?b \<longrightarrow> envs ?w1 e = envs w e"
    by (simp_all add: bindings_defs callback_defs host_defs LazySplitSubsets_clear_def
        Let_def split_def)
  have cache: "resolved (subsets ?w1) = Map.empty"
    "subset_data (subsets ?w1) = subset_data (subsets w)"
    by (simp_all add: bindings_defs callback_defs host_defs LazySplitSubsets_clear_def
        Let_def split_def)
  have wired: "mask_env (resolvers ?w1 (callback ?b)) = ENVSXP (mask_resolved ?b)"
    "resolver_alive ?w1 (callback ?b)"
    by (simp_all add: bindings_defs callback_defs host_defs LazySplitSubsets_clear_def
        Let_def split_def)
  have others: "\<forall>q. q \<noteq> next_proxy w \<longrightarrow> proxies ?w1 q = proxies w q"
    "\<forall>r. r \<noteq> callback ?b \<longrightarrow>
       resolvers ?w1 r = resolvers w r \<and> resolver_alive ?w1 r = resolver_alive w r"
    by (simp_all add: bindings_defs callback_defs host_defs LazySplitSubsets_clear_def
        Let_def split_def)
  show ?thesis
    unfolding split_def
    using bound proxy resolver routed scopes cache wired others
    by (simp add: bottom_def top_env_def del: findVar.simps)
qed

theorem bindings_constructor_witness:
  "''x'' \<in> set (get_variable_names (subsets example_world))
   \<and> frame (envs example_bound (mask_active example_bindings)) ''x'' =
       Some (Active Hybrid_get_callback [EXTPTRSXP 0])
   \<and> frame (envs example_bound (mask_active example_bindings)) ''z'' = None
   \<and> proxies example_bound 0 = Some \<lparr>real = callback example_bindings\<rparr>
   \<and> findVar 1 ''x'' (mask_active example_bindings) example_bound =
       HybridCallbackWeakProxy_get_subset \<lparr>real = callback example_bindings\<rparr> ''x''
         example_bound
   \<and> enclos (envs example_bound (mask_resolved example_bindings)) =
       Some (mask_active example_bindings)
   \<and> mask_env (resolvers example_bound (callback example_bindings)) =
       bottom example_bindings
   \<and> bottom example_bindings = ENVSXP 2
   \<and> top_env example_bindings = ENVSXP 1
   \<and> envs example_bound 0 = envs example_world 0
   \<and> proxies example_bound 1 = proxies example_world 1
   \<and> resolver_alive example_bound 1 = resolver_alive example_world 1"
proof -
  have declared: "''x'' \<in> set (get_variable_names (subsets example_world))"
    and undeclared: "''z'' \<notin> set (get_variable_names (subsets example_world))"
    and free: "next_proxy example_world = 0" "next_resolver example_world = 0"
    by (simp_all add: example_world_def example_subsets_def get_variable_names_def)
  have ids: "mask_active example_bindings = 1" "mask_resolved example_bindings = 2"
    by (simp_all add: example_bindings_def example_world_def bindings_defs callback_defs
        host_defs LazySplitSubsets_clear_def Let_def split_def)
  have pair: "DataMask_bindings_new 0 example_world = (example_bindings, example_bound)"
    by (simp add: example_bindings_def example_bound_def)
  note made = bindings_constructor [where parent = 0 and w = example_world and k = 0,
      unfolded pair prod.case free]
  from made have resolver: "callback example_bindings = 0"
    by (elim conjE)
  from made have "\<forall>x \<in> set (get_variable_names (subsets example_world)).
      findVar (Suc 0) x (mask_active example_bindings) example_bound =
        HybridCallbackWeakProxy_get_subset \<lparr>real = callback example_bindings\<rparr> x example_bound"
    by (elim conjE)
  with declared have routed: "findVar 1 ''x'' (mask_active example_bindings) example_bound =
      HybridCallbackWeakProxy_get_subset \<lparr>real = callback example_bindings\<rparr> ''x''
        example_bound"
    by (auto simp del: findVar.simps)
  from made declared undeclared routed show ?thesis
    by (simp add: ids resolver del: findVar.simps One_nat_def)
qed

subsection \<open>The binding layer of a NaturalDataFrame\<close>

text \<open>
  Claim C6. For the specialisation for \<^verbatim>\<open>NaturalDataFrame\<close>, \<^verbatim>\<open>update\<close> returns the
  world it was given, for every index, and \<^verbatim>\<open>bottom()\<close> and \<^verbatim>\<open>top()\<close> are the same
  scope. The constructor makes that scope a child of the given parent and binds in it
  every declared variable name to the data of its column, as a plain binding; the frame
  holds nothing else. It leaves the subset cache, the resolvers and the proxies as they
  were.
\<close>

theorem natural_bindings:
  "DataMask_bindings_Natural_update b idx w' = w'
   \<and> bottom_Natural b = ENVSXP (mask_bindings b)
   \<and> top_Natural b = bottom_Natural b
   \<and> (case DataMask_bindings_Natural_new p w of
        (b', w1) \<Rightarrow>
          (\<forall>x. frame (envs w1 (mask_bindings b')) x =
                map_option (\<lambda>c. Plain (INTSXP c)) (map_of (rev (subset_data (subsets w))) x))
        \<and> (\<forall>x \<in> set (get_variable_names (subsets w)).
              \<exists>c. frame (envs w1 (mask_bindings b')) x = Some (Plain (INTSXP c))
                \<and> (x, c) \<in> set (subset_data (subsets w)))
        \<and> enclos (envs w1 (mask_bindings b')) = Some p
        \<and> subsets w1 = subsets w
        \<and> resolvers w1 = resolvers w
        \<and> resolver_alive w1 = resolver_alive w
        \<and> proxies w1 = proxies w)"
proof -
  let ?e = "next_env w"
  let ?w0 = "snd (new_child (Some p) w)"
  let ?n = "length (get_variable_names (subsets w))"
  let ?w1 = "define_columns 0 ?n ?e ?w0"
  have new: "DataMask_bindings_Natural_new p w = (\<lparr>mask_bindings = ?e\<rparr>, ?w1)"
    by (simp add: DataMask_bindings_Natural_new_def new_child_def Let_def)
  have sub0: "subsets ?w0 = subsets w"
    by (simp add: new_child_def)
  have len: "?n = length (subset_data (subsets ?w0))"
    by (simp add: get_variable_names_def sub0)
  have fr: "frame (envs ?w1 ?e) x =
      map_option (\<lambda>c. Plain (INTSXP c)) (map_of (rev (subset_data (subsets w))) x)" for x
    using define_columns_frame [OF len, of 0 ?e x]
    by (simp add: sub0 new_child_def split: option.splits)
  have bound: "\<exists>c. frame (envs ?w1 ?e) x = Some (Plain (INTSXP c))
        \<and> (x, c) \<in> set (subset_data (subsets w))"
    if "x \<in> set (get_variable_names (subsets w))" for x
  proof -
    from that have "x \<in> fst ` set (rev (subset_data (subsets w)))"
      by (simp add: get_variable_names_def)
    then have "map_of (rev (subset_data (subsets w))) x \<noteq> None"
      by (simp only: map_of_eq_None_iff not_not)
    then obtain c where c: "map_of (rev (subset_data (subsets w))) x = Some c"
      by blast
    then have "(x, c) \<in> set (subset_data (subsets w))"
      using map_of_SomeD by fastforce
    with c fr show ?thesis
      by simp
  qed
  have rest: "enclos (envs ?w1 ?e) = Some p \<and> subsets ?w1 = subsets w
      \<and> resolvers ?w1 = resolvers w \<and> resolver_alive ?w1 = resolver_alive w
      \<and> proxies ?w1 = proxies w"
    using define_columns_rest [of 0 ?n ?e ?w0] define_columns_proxies [of 0 ?n ?e ?w0]
    by (simp add: new_child_def)
  show ?thesis
    unfolding new
    using fr bound rest
    by (simp add: DataMask_bindings_Natural_update_def bottom_Natural_def top_Natural_def)
qed

theorem natural_bindings_witness:
  "''y'' \<in> set (get_variable_names (subsets example_world))
   \<and> (case DataMask_bindings_Natural_new 0 example_world of
        (b, w1) \<Rightarrow>
          frame (envs w1 (mask_bindings b)) ''y'' =
            Some (Plain (INTSXP [20, 21, 22, 23, 24, 25, 26, 27]))
        \<and> frame (envs w1 (mask_bindings b)) ''z'' = None
        \<and> DataMask_bindings_Natural_update b other_index w1 = w1
        \<and> bottom_Natural b = top_Natural b)"
proof -
  have declared: "''y'' \<in> set (get_variable_names (subsets example_world))"
    by (simp add: example_world_def example_subsets_def get_variable_names_def)
  have data: "subset_data (subsets example_world) =
      [(''x'', [10, 11, 12, 13, 14, 15, 16, 17]), (''y'', [20, 21, 22, 23, 24, 25, 26, 27])]"
    by (simp add: example_world_def example_subsets_def)
  obtain b w1 where pair: "DataMask_bindings_Natural_new 0 example_world = (b, w1)"
    by (cases "DataMask_bindings_Natural_new 0 example_world")
  from natural_bindings [where b = b and idx = other_index and w' = w1 and p = 0
      and w = example_world] declared
  show ?thesis
    unfolding pair by (simp add: data)
qed

subsection \<open>What an evaluation leaves in place\<close>

text \<open>
  Claim C7. Let a data mask be constructed, and let any world be given, such as the one
  a previous evaluation has left. Before \<^verbatim>\<open>eval\<close> calls the evaluation engine it keeps
  every binding of the evaluation scope but \<^verbatim>\<open>..group_size\<close> and
  \<^verbatim>\<open>..group_number\<close>, and the parent of that scope. Of the other environments only
  the resolved scope changes: it loses the bindings of the names whose subset was
  cached, which is what \<^verbatim>\<open>update\<close> invalidates. So a binding that an expression
  made in the evaluation scope is there at the next evaluation.
\<close>

theorem eval_keeps_evaluation_scope:
  "let m = fst (DataMask_new env w0);
       ov = overscope m;
       res = mask_resolved (bindings m)
   in \<exists>w3. (\<forall>Rcpp_eval expr. DataMask_eval Rcpp_eval m expr idx w =
                Rcpp_eval expr (ENVSXP ov) w3)
        \<and> (\<forall>x. x \<noteq> ''..group_size'' \<and> x \<noteq> ''..group_number'' \<longrightarrow>
              frame (envs w3 ov) x = frame (envs w ov) x)
        \<and> enclos (envs w3 ov) = enclos (envs w ov)
        \<and> (\<forall>x. frame (envs w3 res) x =
              (if resolved (subsets w) x = None then frame (envs w res) x else None))
        \<and> (\<forall>e. e \<noteq> ov \<and> e \<noteq> res \<longrightarrow> envs w3 e = envs w e)"
proof -
  define m where "m = fst (DataMask_new env w0)"
  let ?ov = "overscope m"
  let ?res = "mask_resolved (bindings m)"
  let ?w1 = "DataMask_bindings_update (bindings m) idx w"
  let ?w3 = "Rf_defineVar ''..group_number'' (INTSXP [Index_group idx + 1]) ?ov
      (Rf_defineVar ''..group_size'' (INTSXP [Index_size idx]) ?ov ?w1)"
  have ne: "?ov \<noteq> ?res"
    using DataMask_new_ids [of env w0] by (simp add: m_def)
  have a: "\<forall>Rcpp_eval expr. DataMask_eval Rcpp_eval m expr idx w =
      Rcpp_eval expr (ENVSXP ?ov) ?w3"
    by (simp add: DataMask_eval_unfold)
  have b: "\<forall>x. x \<noteq> ''..group_size'' \<and> x \<noteq> ''..group_number'' \<longrightarrow>
      frame (envs ?w3 ?ov) x = frame (envs w ?ov) x"
    using ne
    by (simp add: Rf_defineVar_def DataMask_bindings_update_unfold set_indices_def
        LazySplitSubsets_update_def LazySplitSubsets_clear_def invalidate_def Let_def)
  have c: "enclos (envs ?w3 ?ov) = enclos (envs w ?ov)"
    using ne
    by (simp add: Rf_defineVar_def DataMask_bindings_update_unfold set_indices_def
        LazySplitSubsets_update_def LazySplitSubsets_clear_def invalidate_def Let_def)
  have d: "\<forall>x. frame (envs ?w3 ?res) x =
      (if resolved (subsets w) x = None then frame (envs w ?res) x else None)"
    using ne
    by (simp add: Rf_defineVar_def DataMask_bindings_update_unfold set_indices_def
        LazySplitSubsets_update_def LazySplitSubsets_clear_def invalidate_def Let_def)
  have e: "\<forall>e. e \<noteq> ?ov \<and> e \<noteq> ?res \<longrightarrow> envs ?w3 e = envs w e"
    by (simp add: Rf_defineVar_def DataMask_bindings_update_unfold set_indices_def
        LazySplitSubsets_update_def LazySplitSubsets_clear_def invalidate_def Let_def)
  have "\<exists>w3. (\<forall>Rcpp_eval expr. DataMask_eval Rcpp_eval m expr idx w =
                Rcpp_eval expr (ENVSXP ?ov) w3)
        \<and> (\<forall>x. x \<noteq> ''..group_size'' \<and> x \<noteq> ''..group_number'' \<longrightarrow>
              frame (envs w3 ?ov) x = frame (envs w ?ov) x)
        \<and> enclos (envs w3 ?ov) = enclos (envs w ?ov)
        \<and> (\<forall>x. frame (envs w3 ?res) x =
              (if resolved (subsets w) x = None then frame (envs w ?res) x else None))
        \<and> (\<forall>e. e \<noteq> ?ov \<and> e \<noteq> ?res \<longrightarrow> envs w3 e = envs w e)"
    by (rule exI [where x = ?w3], intro conjI) (fact a b c d e)+
  then show ?thesis
    unfolding m_def Let_def .
qed

theorem eval_keeps_evaluation_scope_witness:
  "fst (DataMask_eval example_Rcpp_eval example_mask (LANGSXP ''helper'') other_index
          (snd (DataMask_eval example_Rcpp_eval example_mask (LANGSXP ''helper <- 1'')
                  example_index example_session))) = Inr (INTSXP [1])
   \<and> fst (DataMask_eval example_Rcpp_eval example_mask (LANGSXP ''helper'') other_index
          example_session) = Inl (UnboundVariable ''helper'')"
proof -
  let ?left = "snd (DataMask_eval example_Rcpp_eval example_mask (LANGSXP ''helper <- 1'')
      example_index example_session)"
  have ov: "overscope example_mask = 3"
    using DataMask_new_ids [of 0 example_world]
    by (simp add: example_mask_def example_world_def)
  have made: "frame (envs ?left 3) ''helper'' = Some (Plain (INTSXP [1]))"
    by (simp add: DataMask_eval_unfold ov example_Rcpp_eval_def Rf_defineVar_def)
  from eval_keeps_evaluation_scope [of 0 example_world other_index ?left]
  obtain w3 where
    run: "\<forall>Rcpp_eval expr. DataMask_eval Rcpp_eval example_mask expr other_index ?left =
        Rcpp_eval expr (ENVSXP 3) w3"
    and kept: "\<forall>x. x \<noteq> ''..group_size'' \<and> x \<noteq> ''..group_number'' \<longrightarrow>
        frame (envs w3 3) x = frame (envs ?left 3) x"
    unfolding Let_def example_mask_def [symmetric] ov by (elim exE conjE)
  from kept made have "frame (envs w3 3) ''helper'' = Some (Plain (INTSXP [1]))"
    by simp
  then have "findVar (Suc 3) ''helper'' 3 w3 = (Inr (INTSXP [1]), w3)"
    by (subst findVar.simps) simp
  then have retained: "fst (DataMask_eval example_Rcpp_eval example_mask (LANGSXP ''helper'')
      other_index ?left) = Inr (INTSXP [1])"
    by (simp only: run example_Rcpp_eval_name fst_conv)
  have absent: "fst (DataMask_eval example_Rcpp_eval example_mask (LANGSXP ''helper'')
      other_index example_session) = Inl (UnboundVariable ''helper'')"
    by (simp add: DataMask_eval_unfold example_defs bindings_defs callback_defs
        subsets_defs host_defs Let_def split_def eval_nat_numeral)
  from retained absent show ?thesis
    by (intro conjI)
qed

subsection \<open>A failure of the evaluation engine\<close>

text \<open>
  Claim C8. \<^verbatim>\<open>eval\<close> fails with an error and a world exactly when the evaluation
  engine, called once on the prepared world, fails with that error and that world: the
  failure is neither caught nor changed nor tried again. Whatever world the failure
  leaves, the next \<^verbatim>\<open>update\<close> empties the cache and installs its index, and so the
  engine of the next \<^verbatim>\<open>eval\<close> receives an empty cache and the index of that call.
\<close>

theorem eval_propagates_failure:
  "\<exists>w3. (\<forall>Rcpp_eval expr e w'.
            (DataMask_eval Rcpp_eval m expr idx w = (Inl e, w')) =
            (Rcpp_eval expr (ENVSXP (overscope m)) w3 = (Inl e, w')))
     \<and> (\<forall>w' idx'.
            resolved (subsets (DataMask_bindings_update (bindings m) idx' w')) = Map.empty
          \<and> indices (resolvers (DataMask_bindings_update (bindings m) idx' w')
                (callback (bindings m))) = Some idx')
     \<and> (\<forall>w' Rcpp_eval' expr' idx'. \<exists>w4.
            DataMask_eval Rcpp_eval' m expr' idx' w' =
              Rcpp_eval' expr' (ENVSXP (overscope m)) w4
          \<and> resolved (subsets w4) = Map.empty
          \<and> indices (resolvers w4 (callback (bindings m))) = Some idx')"
proof -
  let ?pre = "\<lambda>idx w.
      Rf_defineVar ''..group_number'' (INTSXP [Index_group idx + 1]) (overscope m)
        (Rf_defineVar ''..group_size'' (INTSXP [Index_size idx]) (overscope m)
           (DataMask_bindings_update (bindings m) idx w))"
  have a: "DataMask_eval Rcpp_eval m expr i v =
      Rcpp_eval expr (ENVSXP (overscope m)) (?pre i v)" for Rcpp_eval expr i v
    by (rule DataMask_eval_unfold)
  have b: "resolved (subsets (DataMask_bindings_update (bindings m) i v)) = Map.empty
      \<and> indices (resolvers (DataMask_bindings_update (bindings m) i v)
          (callback (bindings m))) = Some i" for i v
    by (simp add: DataMask_bindings_update_unfold set_indices_def LazySplitSubsets_update_def
        LazySplitSubsets_clear_def Let_def)
  have c: "resolved (subsets (?pre i v)) = Map.empty
      \<and> indices (resolvers (?pre i v) (callback (bindings m))) = Some i" for i v
    using b [of i v] by (simp add: Rf_defineVar_def)
  have d: "\<exists>w4. DataMask_eval Rcpp_eval' m expr' i v =
        Rcpp_eval' expr' (ENVSXP (overscope m)) w4
      \<and> resolved (subsets w4) = Map.empty
      \<and> indices (resolvers w4 (callback (bindings m))) = Some i" for Rcpp_eval' expr' i v
    using a [of Rcpp_eval' expr' i v] c [of i v]
    by (intro exI [where x = "?pre i v"]) simp
  show ?thesis
  proof (rule exI [where x = "?pre idx w"], intro conjI allI)
    fix Rcpp_eval expr e w'
    show "(DataMask_eval Rcpp_eval m expr idx w = (Inl e, w')) =
        (Rcpp_eval expr (ENVSXP (overscope m)) (?pre idx w) = (Inl e, w'))"
      by (simp only: a)
  next
    fix w' idx'
    show "resolved (subsets (DataMask_bindings_update (bindings m) idx' w')) = Map.empty"
      using b [of idx' w'] by simp
    show "indices (resolvers (DataMask_bindings_update (bindings m) idx' w')
                (callback (bindings m))) = Some idx'"
      using b [of idx' w'] by simp
  next
    fix w' Rcpp_eval' expr' idx'
    show "\<exists>w4. DataMask_eval Rcpp_eval' m expr' idx' w' =
          Rcpp_eval' expr' (ENVSXP (overscope m)) w4
        \<and> resolved (subsets w4) = Map.empty
        \<and> indices (resolvers w4 (callback (bindings m))) = Some idx'"
      by (rule d)
  qed
qed

theorem eval_propagates_failure_witness:
  "fst (DataMask_eval example_Rcpp_eval example_mask (LANGSXP ''stop()'') example_index
          example_session) = Inl (EvaluationEngineFailure ''stop'')
   \<and> indices (resolvers (snd (DataMask_eval example_Rcpp_eval example_mask
          (LANGSXP ''stop()'') example_index example_session))
        (callback (bindings example_mask))) = Some example_index
   \<and> indices (resolvers (DataMask_bindings_update (bindings example_mask) other_index
          (snd (DataMask_eval example_Rcpp_eval example_mask (LANGSXP ''stop()'')
                  example_index example_session)))
        (callback (bindings example_mask))) = Some other_index
   \<and> fst (DataMask_eval example_Rcpp_eval example_mask (LANGSXP ''x'') other_index
          (snd (DataMask_eval example_Rcpp_eval example_mask (LANGSXP ''stop()'')
                  example_index example_session))) = Inr (INTSXP [10, 11])"
proof -
  let ?failed = "DataMask_eval example_Rcpp_eval example_mask (LANGSXP ''stop()'')
      example_index example_session"
  from eval_propagates_failure [of example_mask example_index example_session]
  obtain w3 where
    iff: "\<forall>Rcpp_eval expr e w'.
        (DataMask_eval Rcpp_eval example_mask expr example_index example_session =
           (Inl e, w')) =
        (Rcpp_eval expr (ENVSXP (overscope example_mask)) w3 = (Inl e, w'))"
    and reset: "\<forall>w' idx'.
        resolved (subsets (DataMask_bindings_update (bindings example_mask) idx' w')) =
          Map.empty
      \<and> indices (resolvers (DataMask_bindings_update (bindings example_mask) idx' w')
            (callback (bindings example_mask))) = Some idx'"
    by (elim exE conjE)
  have engine: "example_Rcpp_eval (LANGSXP ''stop()'') (ENVSXP (overscope example_mask)) w3 =
      (Inl (EvaluationEngineFailure ''stop''), w3)"
    by (simp add: example_Rcpp_eval_def)
  with iff have failed: "?failed = (Inl (EvaluationEngineFailure ''stop''), w3)"
    by blast
  have first: "fst ?failed = Inl (EvaluationEngineFailure ''stop'')"
    by (simp only: failed fst_conv)
  have left: "indices (resolvers (snd ?failed) (callback (bindings example_mask))) =
      Some example_index"
    by (simp add: DataMask_eval_unfold example_Rcpp_eval_def Rf_defineVar_def
        DataMask_bindings_update_unfold set_indices_def Let_def)
  have next_index: "indices (resolvers (DataMask_bindings_update (bindings example_mask)
      other_index (snd ?failed)) (callback (bindings example_mask))) = Some other_index"
    using reset by blast
  have again: "fst (DataMask_eval example_Rcpp_eval example_mask (LANGSXP ''x'') other_index
      (snd ?failed)) = Inr (INTSXP [10, 11])"
    by (simp add: DataMask_eval_unfold example_defs bindings_defs callback_defs
        subsets_defs host_defs Let_def split_def eval_nat_numeral)
  from first left next_index again show ?thesis
    by (intro conjI)
qed

subsection \<open>Resolution before the first update\<close>

text \<open>
  Claim C9. The constructor of the general binding layer leaves the index pointer of its
  resolver null, and a resolution in that world, directly, through the callback with the
  payload of the constructor, or by a read of a declared name in the active scope,
  dereferences the null pointer, for every name. \<^verbatim>\<open>get_indices\<close> dereferences a null
  pointer exactly when no index is installed. \<^verbatim>\<open>update\<close> installs its index; a
  resolution, \<^verbatim>\<open>set_env\<close> and clearing the cache leave the pointer of every resolver
  as it is.
\<close>

theorem resolution_before_first_update:
  "indices (resolvers (snd (DataMask_bindings_new parent w))
      (callback (fst (DataMask_bindings_new parent w)))) = None
   \<and> GroupedHybridEval_get_subset (callback (fst (DataMask_bindings_new parent w))) x
        (snd (DataMask_bindings_new parent w)) =
       (Inl NullIndexDereference, snd (DataMask_bindings_new parent w))
   \<and> hybrid_get_callback x [EXTPTRSXP (next_proxy w)] (snd (DataMask_bindings_new parent w)) =
       (Inl NullIndexDereference, snd (DataMask_bindings_new parent w))
   \<and> (x \<in> set (get_variable_names (subsets w)) \<longrightarrow>
        findVar (Suc k) x (mask_active (fst (DataMask_bindings_new parent w)))
          (snd (DataMask_bindings_new parent w)) =
        (Inl NullIndexDereference, snd (DataMask_bindings_new parent w)))
   \<and> get_indices (resolvers (DataMask_bindings_update b idx w') (callback b)) = Inr idx
   \<and> ((get_indices g = Inl NullIndexDereference) = (indices g = None))
   \<and> indices (resolvers (snd (GroupedHybridEval_get_subset r x w')) r') =
       indices (resolvers w' r')
   \<and> indices (resolvers (set_env r env w') r') = indices (resolvers w' r')
   \<and> indices (resolvers (LazySplitSubsets_clear w') r') = indices (resolvers w' r')"
proof -
  let ?b = "fst (DataMask_bindings_new parent w)"
  let ?w1 = "snd (DataMask_bindings_new parent w)"
  have null: "indices (resolvers ?w1 (callback ?b)) = None"
    and live: "resolver_alive ?w1 (callback ?b)"
    and proxy: "proxies ?w1 (next_proxy w) = Some \<lparr>real = callback ?b\<rparr>"
    by (simp_all add: bindings_defs callback_defs host_defs LazySplitSubsets_clear_def
        Let_def split_def)
  from null have direct: "GroupedHybridEval_get_subset (callback ?b) x ?w1 =
      (Inl NullIndexDereference, ?w1)"
    by (simp add: GroupedHybridEval_get_subset_def get_indices_def)
  with live proxy have proxied: "hybrid_get_callback x [EXTPTRSXP (next_proxy w)] ?w1 =
      (Inl NullIndexDereference, ?w1)"
    by (simp add: hybrid_get_callback_def HybridCallbackWeakProxy_get_subset_def)
  have read: "findVar (Suc k) x (mask_active ?b) ?w1 = (Inl NullIndexDereference, ?w1)"
    if "x \<in> set (get_variable_names (subsets w))"
  proof -
    from that have "frame (envs ?w1 (mask_active ?b)) x =
        Some (Active Hybrid_get_callback [EXTPTRSXP (next_proxy w)])"
      by (simp add: bindings_defs callback_defs host_defs LazySplitSubsets_clear_def
          Let_def split_def)
    with proxied show ?thesis
      by simp
  qed
  have installs: "get_indices (resolvers (DataMask_bindings_update b idx w') (callback b)) =
      Inr idx"
    by (simp add: DataMask_bindings_update_unfold set_indices_def get_indices_def)
  have exactly: "(get_indices g = Inl NullIndexDereference) = (indices g = None)"
    by (cases "indices g") (simp_all add: get_indices_def)
  have resolution: "indices (resolvers (snd (GroupedHybridEval_get_subset r x w')) r') =
      indices (resolvers w' r')"
    by (simp add: GroupedHybridEval_get_subset_def get_indices_def LazySplitSubsets_get_def
        install_def Rf_defineVar_def split: option.splits sexp.splits)
  have others: "indices (resolvers (set_env r env w') r') = indices (resolvers w' r')"
    "indices (resolvers (LazySplitSubsets_clear w') r') = indices (resolvers w' r')"
    by (simp_all add: set_env_def LazySplitSubsets_clear_def)
  from read have read': "x \<in> set (get_variable_names (subsets w)) \<longrightarrow>
      findVar (Suc k) x (mask_active ?b) ?w1 = (Inl NullIndexDereference, ?w1)"
    by (rule impI)
  from null direct proxied read' installs exactly resolution others show ?thesis
    by (intro conjI)
qed

theorem resolution_before_first_update_witness:
  "fst (hybrid_get_callback ''x'' [EXTPTRSXP 0] example_bound) = Inl NullIndexDereference
   \<and> ''x'' \<in> set (get_variable_names (subsets example_world))
   \<and> fst (findVar 2 ''x'' (mask_resolved example_bindings) example_bound) =
       Inl NullIndexDereference
   \<and> get_indices (resolvers example_bound (callback example_bindings)) =
       Inl NullIndexDereference
   \<and> get_indices (resolvers example_started (callback example_bindings)) = Inr example_index
   \<and> fst (hybrid_get_callback ''x'' [EXTPTRSXP 0] example_started) =
       Inr (INTSXP [12, 15, 17])"
proof -
  have free: "next_proxy example_world = 0"
    by (simp add: example_world_def)
  have declared: "''x'' \<in> set (get_variable_names (subsets example_world))"
    by (simp add: example_world_def example_subsets_def get_variable_names_def)
  note first_update = resolution_before_first_update [where parent = 0
      and w = example_world and x = "''x''" and b = example_bindings
      and idx = example_index and w' = example_bound
      and g = "resolvers example_bound (callback example_bindings)" and env = R_NilValue
      and r = 0 and r' = 0 and k = 0,
      unfolded free, folded example_bound_def example_bindings_def,
      folded example_started_def]
  from first_update have null: "indices (resolvers example_bound
      (callback example_bindings)) = None"
    by (elim conjE)
  from first_update have proxied: "hybrid_get_callback ''x'' [EXTPTRSXP 0] example_bound =
      (Inl NullIndexDereference, example_bound)"
    by (elim conjE)
  from first_update have "''x'' \<in> set (get_variable_names (subsets example_world)) \<longrightarrow>
      findVar (Suc 0) ''x'' (mask_active example_bindings) example_bound =
      (Inl NullIndexDereference, example_bound)"
    by (elim conjE)
  with declared have active: "findVar (Suc 0) ''x'' (mask_active example_bindings)
      example_bound = (Inl NullIndexDereference, example_bound)"
    by (rule rev_mp)
  from first_update
  have exactly: "(get_indices (resolvers example_bound (callback example_bindings)) =
      Inl NullIndexDereference) =
      (indices (resolvers example_bound (callback example_bindings)) = None)"
    by (elim conjE)
  from first_update
  have installed: "get_indices (resolvers example_started (callback example_bindings)) =
      Inr example_index"
    by (elim conjE)
  have a: "fst (hybrid_get_callback ''x'' [EXTPTRSXP 0] example_bound) =
      Inl NullIndexDereference"
    by (simp only: proxied fst_conv)
  have scopes: "frame (envs example_bound (mask_resolved example_bindings)) ''x'' = None"
    "enclos (envs example_bound (mask_resolved example_bindings)) =
      Some (mask_active example_bindings)"
    by (simp_all add: example_bindings_def example_bound_def example_world_def
        example_subsets_def bindings_defs callback_defs host_defs LazySplitSubsets_clear_def
        get_variable_names_def Let_def split_def)
  have "findVar (Suc (Suc 0)) ''x'' (mask_resolved example_bindings) example_bound =
      findVar (Suc 0) ''x'' (mask_active example_bindings) example_bound"
    by (subst findVar.simps) (simp add: scopes del: findVar.simps)
  then have b: "fst (findVar 2 ''x'' (mask_resolved example_bindings) example_bound) =
      Inl NullIndexDereference"
    by (simp add: active numeral_2_eq_2 del: findVar.simps)
  have c: "get_indices (resolvers example_bound (callback example_bindings)) =
      Inl NullIndexDereference"
    using exactly null by simp
  have d: "fst (hybrid_get_callback ''x'' [EXTPTRSXP 0] example_started) =
      Inr (INTSXP [12, 15, 17])"
    by (simp add: example_defs bindings_defs callback_defs subsets_defs host_defs
        Let_def split_def)
  from a declared b c installed d show ?thesis
    by (intro conjI)
qed

subsection \<open>Group metadata on the fast path\<close>

text \<open>
  Claim C10. \<^verbatim>\<open>eval\<close> of the data mask of a \<^verbatim>\<open>NaturalDataFrame\<close> hands the engine a
  world in which \<^verbatim>\<open>..group_size\<close> reads as the number of rows of the index passed to
  that call and \<^verbatim>\<open>..group_number\<close> as its group ordinal plus one, whatever the
  dataset is. Nothing else differs from the world \<^verbatim>\<open>eval\<close> was given: the binding
  layer ignores the index.
\<close>

theorem natural_eval_metadata_from_index:
  "\<exists>w3. (\<forall>Rcpp_eval expr. DataMask_Natural_eval Rcpp_eval m expr idx w =
              Rcpp_eval expr (ENVSXP (overscope_Natural m)) w3)
     \<and> findVar (Suc k) ''..group_size'' (overscope_Natural m) w3 =
         (Inr (INTSXP [of_nat (length (index_rows idx))]), w3)
     \<and> findVar (Suc k) ''..group_number'' (overscope_Natural m) w3 =
         (Inr (INTSXP [index_group idx + 1]), w3)
     \<and> (\<forall>x. x \<noteq> ''..group_size'' \<and> x \<noteq> ''..group_number'' \<longrightarrow>
           frame (envs w3 (overscope_Natural m)) x = frame (envs w (overscope_Natural m)) x)
     \<and> enclos (envs w3 (overscope_Natural m)) = enclos (envs w (overscope_Natural m))
     \<and> (\<forall>e. e \<noteq> overscope_Natural m \<longrightarrow> envs w3 e = envs w e)
     \<and> subsets w3 = subsets w
     \<and> resolvers w3 = resolvers w
     \<and> resolver_alive w3 = resolver_alive w
     \<and> proxies w3 = proxies w"
proof
  let ?ov = "overscope_Natural m"
  let ?w3 = "Rf_defineVar ''..group_number'' (INTSXP [Index_group idx + 1]) ?ov
      (Rf_defineVar ''..group_size'' (INTSXP [Index_size idx]) ?ov w)"
  show "(\<forall>Rcpp_eval expr. DataMask_Natural_eval Rcpp_eval m expr idx w =
              Rcpp_eval expr (ENVSXP ?ov) ?w3)
     \<and> findVar (Suc k) ''..group_size'' ?ov ?w3 =
         (Inr (INTSXP [of_nat (length (index_rows idx))]), ?w3)
     \<and> findVar (Suc k) ''..group_number'' ?ov ?w3 =
         (Inr (INTSXP [index_group idx + 1]), ?w3)
     \<and> (\<forall>x. x \<noteq> ''..group_size'' \<and> x \<noteq> ''..group_number'' \<longrightarrow>
           frame (envs ?w3 ?ov) x = frame (envs w ?ov) x)
     \<and> enclos (envs ?w3 ?ov) = enclos (envs w ?ov)
     \<and> (\<forall>e. e \<noteq> ?ov \<longrightarrow> envs ?w3 e = envs w e)
     \<and> subsets ?w3 = subsets w
     \<and> resolvers ?w3 = resolvers w
     \<and> resolver_alive ?w3 = resolver_alive w
     \<and> proxies ?w3 = proxies w"
    by (simp add: DataMask_Natural_eval_def DataMask_bindings_Natural_update_def Let_def
        Rf_defineVar_def Index_size_def Index_group_def)
qed

theorem natural_eval_metadata_from_index_witness:
  "length (snd (hd (subset_data (subsets example_Natural_session)))) = 8
   \<and> fst (DataMask_Natural_eval example_Rcpp_eval example_Natural_mask
          (LANGSXP ''..group_size'') example_index example_Natural_session) =
       Inr (INTSXP [3])
   \<and> fst (DataMask_Natural_eval example_Rcpp_eval example_Natural_mask
          (LANGSXP ''..group_number'') example_index example_Natural_session) =
       Inr (INTSXP [5])
   \<and> fst (DataMask_Natural_eval example_Rcpp_eval example_Natural_mask
          (LANGSXP ''x'') example_index example_Natural_session) =
       Inr (INTSXP [10, 11, 12, 13, 14, 15, 16, 17])"
proof -
  from natural_eval_metadata_from_index [of example_Natural_mask example_index
      example_Natural_session 3]
  obtain w3 where
    run: "\<forall>Rcpp_eval expr. DataMask_Natural_eval Rcpp_eval example_Natural_mask expr
        example_index example_Natural_session =
        Rcpp_eval expr (ENVSXP (overscope_Natural example_Natural_mask)) w3"
    and size: "findVar (Suc 3) ''..group_size'' (overscope_Natural example_Natural_mask) w3 =
        (Inr (INTSXP [of_nat (length (index_rows example_index))]), w3)"
    and number: "findVar (Suc 3) ''..group_number''
        (overscope_Natural example_Natural_mask) w3 =
        (Inr (INTSXP [index_group example_index + 1]), w3)"
    and others: "\<forall>x. x \<noteq> ''..group_size'' \<and> x \<noteq> ''..group_number'' \<longrightarrow>
        frame (envs w3 (overscope_Natural example_Natural_mask)) x =
        frame (envs example_Natural_session (overscope_Natural example_Natural_mask)) x"
    and parent: "enclos (envs w3 (overscope_Natural example_Natural_mask)) =
        enclos (envs example_Natural_session (overscope_Natural example_Natural_mask))"
    and elsewhere: "\<forall>e. e \<noteq> overscope_Natural example_Natural_mask \<longrightarrow>
        envs w3 e = envs example_Natural_session e"
    by (elim exE conjE)
  have ids: "example_Natural_mask =
      \<lparr>bindings_Natural = \<lparr>mask_bindings = 1\<rparr>, overscope_Natural = 2\<rparr>"
    by (simp add: example_Natural_mask_def DataMask_Natural_new_def
        DataMask_bindings_Natural_new_def host_defs bottom_Natural_def define_columns_kept
        example_world_def Let_def split_def)
  have column: "frame (envs example_Natural_session 1) ''x'' =
      Some (Plain (INTSXP [10, 11, 12, 13, 14, 15, 16, 17]))"
    by (simp add: example_Natural_session_def DataMask_Natural_new_def
        DataMask_bindings_Natural_new_def host_defs bottom_Natural_def top_Natural_def
        get_variable_names_def define_columns_kept define_columns_frame
        example_world_def example_subsets_def Let_def split_def)
  have scope: "frame (envs example_Natural_session 2) ''x'' = None
      \<and> enclos (envs example_Natural_session 2) = Some 1"
    by (simp add: example_Natural_session_def DataMask_Natural_new_def
        DataMask_bindings_Natural_new_def host_defs bottom_Natural_def top_Natural_def
        get_variable_names_def define_columns_kept
        example_world_def example_subsets_def Let_def split_def)
  from others scope have "frame (envs w3 2) ''x'' = None"
    by (simp add: ids)
  moreover from parent scope have "enclos (envs w3 2) = Some 1"
    by (simp add: ids)
  moreover from elsewhere column have "frame (envs w3 1) ''x'' =
      Some (Plain (INTSXP [10, 11, 12, 13, 14, 15, 16, 17]))"
    by (simp add: ids)
  ultimately have "findVar (Suc 3) ''x'' 2 w3 =
      (Inr (INTSXP [10, 11, 12, 13, 14, 15, 16, 17]), w3)"
    by (simp add: eval_nat_numeral)
  then have column8: "fst (DataMask_Natural_eval example_Rcpp_eval example_Natural_mask
      (LANGSXP ''x'') example_index example_Natural_session) =
      Inr (INTSXP [10, 11, 12, 13, 14, 15, 16, 17])"
    using run by (simp add: ids example_Rcpp_eval_name del: findVar.simps)
  have whole: "length (snd (hd (subset_data (subsets example_Natural_session)))) = 8"
    by (simp add: example_Natural_session_def DataMask_Natural_new_def
        DataMask_bindings_Natural_new_def host_defs get_variable_names_def
        define_columns_kept example_world_def example_subsets_def Let_def split_def)
  have "fst (DataMask_Natural_eval example_Rcpp_eval example_Natural_mask
      (LANGSXP ''..group_size'') example_index example_Natural_session) =
      fst (findVar (Suc 3) ''..group_size'' (overscope_Natural example_Natural_mask) w3)"
    by (simp only: run example_Rcpp_eval_name)
  then have size3: "fst (DataMask_Natural_eval example_Rcpp_eval example_Natural_mask
      (LANGSXP ''..group_size'') example_index example_Natural_session) = Inr (INTSXP [3])"
    by (simp only: size) (simp add: example_index_def)
  have "fst (DataMask_Natural_eval example_Rcpp_eval example_Natural_mask
      (LANGSXP ''..group_number'') example_index example_Natural_session) =
      fst (findVar (Suc 3) ''..group_number'' (overscope_Natural example_Natural_mask) w3)"
    by (simp only: run example_Rcpp_eval_name)
  then have number5: "fst (DataMask_Natural_eval example_Rcpp_eval example_Natural_mask
      (LANGSXP ''..group_number'') example_index example_Natural_session) = Inr (INTSXP [5])"
    by (simp only: number) (simp add: example_index_def)
  from whole size3 number5 column8 show ?thesis
    by (intro conjI)
qed



end
